theory Spec2Isabelle
  imports Main
begin

text \<open>
  The script \<open>main.py\<close> searches GitHub for repositories, and for each of the first
  \<open>TOP_N\<close> results fetches the README, asks a generative service for a summary, composes
  a message and posts it to a Discord webhook. This theory embeds the script's functions
  as HOL functions over an explicit model of the three services, and proves what the
  pipeline does on every input: truncation of inputs and outputs, ranks, skipped
  candidates, and what an exception or a failed request does to the run.
\<close>

section \<open>Python strings\<close>

text \<open>
  A Python \<open>str\<close> is a sequence of Unicode code points and \<open>len\<close> counts code points,
  so a string is modelled as the list of its code points. The literals of \<open>main.py\<close>
  that contain Japanese text or emoji are written out as code points below.
\<close>

type_synonym pystr = "nat list"

text \<open>\<open>str.isspace\<close> on one character: the code points CPython classifies as whitespace.\<close>

definition py_isspace :: "nat \<Rightarrow> bool" where
  "py_isspace c =
     (c \<in> set [9, 10, 11, 12, 13, 28, 29, 30, 31, 32, 133, 160, 5760,
                8192, 8193, 8194, 8195, 8196, 8197, 8198, 8199, 8200, 8201, 8202,
                8232, 8233, 8239, 8287, 12288])"

text \<open>\<open>s.strip()\<close>: whitespace removed at both ends.\<close>

definition py_strip :: "pystr \<Rightarrow> pystr" where
  "py_strip s = rev (dropWhile py_isspace (rev (dropWhile py_isspace s)))"

text \<open>\<open>s.split(sep)\<close> for a one-character separator: always at least one part.\<close>

fun py_split :: "nat \<Rightarrow> pystr \<Rightarrow> pystr list" where
  "py_split sep [] = [[]]"
| "py_split sep (c # cs) =
     (if c = sep then [] # py_split sep cs
      else (case py_split sep cs of
              [] \<Rightarrow> [[c]]
            | l # ls \<Rightarrow> (c # l) # ls))"

text \<open>\<open>sep.join(parts)\<close> for a one-character separator.\<close>

fun py_join :: "nat \<Rightarrow> pystr list \<Rightarrow> pystr" where
  "py_join sep [] = []"
| "py_join sep [l] = l"
| "py_join sep (l # ls) = l @ sep # py_join sep ls"

definition startswith :: "pystr \<Rightarrow> pystr \<Rightarrow> bool" where
  "startswith s p = (take (length p) s = p)"

text \<open>\<open>str(n)\<close> for an integer, as an f-string renders it: decimal digits, a minus sign first.\<close>

fun str_nat :: "nat \<Rightarrow> pystr" where
  "str_nat n = (if n < 10 then [48 + n] else str_nat (n div 10) @ [48 + n mod 10])"

declare str_nat.simps [simp del]

definition str_int :: "int \<Rightarrow> pystr" where
  "str_int i = (if i < 0 then 45 # str_nat (nat (- i)) else str_nat (nat i))"

subsection \<open>textwrap.dedent\<close>

text \<open>
  The standard library's \<open>textwrap.dedent\<close> (CPython 3.10 to 3.13, the versions that
  accept the source's \<open>dict | None\<close> annotations): lines made of spaces and tabs only
  become empty; the margin is the longest run of spaces and tabs that starts every
  other non-empty line; a non-empty margin is removed from the lines that start with it.
\<close>

definition is_indent_char :: "nat \<Rightarrow> bool" where
  "is_indent_char c = (c = 32 \<or> c = 9)"

definition blank_whitespace_only :: "pystr \<Rightarrow> pystr" where
  "blank_whitespace_only l = (if list_all is_indent_char l then [] else l)"

fun common_prefix :: "pystr \<Rightarrow> pystr \<Rightarrow> pystr" where
  "common_prefix (x # xs) (y # ys) = (if x = y then x # common_prefix xs ys else [])"
| "common_prefix _ _ = []"

definition margin_step :: "pystr option \<Rightarrow> pystr \<Rightarrow> pystr option" where
  "margin_step margin indent =
     (case margin of
        None \<Rightarrow> Some indent
      | Some m \<Rightarrow>
          if startswith indent m then Some m
          else if startswith m indent then Some indent
          else Some (common_prefix m indent))"

definition dedent :: "pystr \<Rightarrow> pystr" where
  "dedent txt =
     (let lines = map blank_whitespace_only (py_split 10 txt);
          indents = map (takeWhile is_indent_char) (filter (\<lambda>l. l \<noteq> []) lines);
          margin = foldl margin_step None indents
      in case margin of
           None \<Rightarrow> py_join 10 lines
         | Some m \<Rightarrow>
             if m = [] then py_join 10 lines
             else py_join 10
                    (map (\<lambda>l. if startswith l m then drop (length m) l else l) lines))"


section \<open>Constants of the script\<close>

definition GITHUB_API_BASE :: pystr where
  \<comment> \<open>\<open>"https://api.github.com"\<close>\<close>
  "GITHUB_API_BASE =
     [104, 116, 116, 112, 115, 58, 47, 47, 97, 112, 105, 46, 103, 105, 116, 104, 117,
      98, 46, 99, 111, 109]"

definition TOP_N :: nat where
  "TOP_N = 2"

definition query :: pystr where
  \<comment> \<open>\<open>"autonomous agent language:Python stars:>200"\<close>\<close>
  "query =
     [97, 117, 116, 111, 110, 111, 109, 111, 117, 115, 32, 97, 103, 101, 110, 116, 32,
      108, 97, 110, 103, 117, 97, 103, 101, 58, 80, 121, 116, 104, 111, 110, 32, 115,
      116, 97, 114, 115, 58, 62, 50, 48, 48]"

definition readme_cut_marker :: pystr where
  \<comment> \<open>the suffix of line 88: newline, three dots, newline, a parenthesised Japanese note\<close>
  "readme_cut_marker =
     [10, 46, 46, 46, 10, 40, 8251, 38263, 12356, 12398, 12391, 19968, 37096, 12398,
      12415, 35201, 32004, 41]"

definition discord_cut_marker :: pystr where
  \<comment> \<open>the suffix of line 119: newline, three dots, a parenthesised Japanese note\<close>
  "discord_cut_marker =
     [10, 46, 46, 46, 40, 25991, 23383, 25968, 21046, 38480, 12391, 12459, 12483,
      12488, 41]"

definition discord_username :: pystr where
  \<comment> \<open>\<open>"rikochi_repo"\<close>\<close>
  "discord_username =
     [114, 105, 107, 111, 99, 104, 105, 95, 114, 101, 112, 111]"

text \<open>The three literal pieces of the prompt f-string of \<open>summarize_with_gemini\<close>.\<close>

definition prompt_head :: pystr where
  "prompt_head =
     [10, 12354, 12394, 12383, 12399, 32, 71, 105, 116, 72, 117, 98, 32, 12522, 12509,
      12472, 12488, 12522, 12398, 32, 82, 69, 65, 68, 77, 69, 32, 12434, 31777, 28500,
      12395, 35201, 32004, 12377, 12427, 12450, 12471, 12473, 12479, 12531, 12488,
      12391, 12377, 12290, 10, 10, 20197, 19979, 12398, 32, 82, 69, 65, 68, 77, 69, 32,
      12434, 35501, 12415, 12289, 10, 45, 32, 20309, 12434, 12377, 12427, 12503, 12525,
      12472, 12455, 12463, 12488, 12363, 10, 45, 32, 20027, 12394, 27231, 33021, 10,
      45, 32, 25216, 34899, 30340, 12394, 12509, 12452, 12531, 12488, 10, 45, 32, 82,
      105, 107, 111, 99, 104, 105, 32, 65, 73, 65288, 33258, 24459, 65, 73, 12398,
      35373, 35336, 12420, 23455, 35013, 65289, 12398, 21442, 32771, 12395, 12394,
      12426, 12381, 12358, 12394, 28857, 10, 12434, 32, 42, 42, 12420, 12373, 12375,
      12356, 26085, 26412, 35486, 12391, 53, 12316, 56, 34892, 31243, 24230, 42, 42,
      32, 12395, 12414, 12392, 12417, 12390, 12367, 12384, 12373, 12356, 12290, 10, 10,
      12522, 12509, 12472, 12488, 12522, 21517, 58, 32]"

definition prompt_middle :: pystr where
  "prompt_middle =
     [10, 10, 82, 69, 65, 68, 77, 69, 58, 10, 45, 45, 45, 45, 45, 45, 45, 45, 45, 45,
      45, 45, 45, 45, 45, 45, 45, 45, 45, 45, 45, 45, 10]"

definition prompt_tail :: pystr where
  "prompt_tail =
     [10, 45, 45, 45, 45, 45, 45, 45, 45, 45, 45, 45, 45, 45, 45, 45, 45, 45, 45, 45,
      45, 45, 45, 10]"

text \<open>
  The literal pieces of the message f-string of \<open>main\<close> (lines 160 to 172), in order:
  each starts at a line break and carries the eight spaces of source indentation.
\<close>

definition t_rank :: pystr where
  "t_rank =
     [10, 32, 32, 32, 32, 32, 32, 32, 32, 127941, 32, 12521, 12531, 12463, 32]"

definition t_name :: pystr where
  "t_name =
     [10, 10, 32, 32, 32, 32, 32, 32, 32, 32, 128216, 32, 42, 42]"

definition t_stars :: pystr where
  "t_stars =
     [42, 42, 10, 32, 32, 32, 32, 32, 32, 32, 32, 11088, 32, 83, 116, 97, 114, 115, 58,
      32]"

definition t_url :: pystr where
  "t_url =
     [10, 32, 32, 32, 32, 32, 32, 32, 32, 128279, 32]"

definition t_desc :: pystr where
  "t_desc =
     [10, 10, 32, 32, 32, 32, 32, 32, 32, 32, 128221, 32, 35500, 26126, 58, 10, 32, 32,
      32, 32, 32, 32, 32, 32]"

definition t_summary :: pystr where
  "t_summary =
     [10, 10, 32, 32, 32, 32, 32, 32, 32, 32, 129504, 32, 82, 69, 65, 68, 77, 69, 32,
      35201, 32004, 32, 40, 71, 101, 109, 105, 110, 105, 41, 58, 10, 32, 32, 32, 32,
      32, 32, 32, 32]"

definition t_end :: pystr where
  "t_end =
     [10, 32, 32, 32, 32, 32, 32, 32, 32]"


definition ascii :: "string \<Rightarrow> pystr" where
  \<comment> \<open>an ASCII literal of the source as code points\<close>
  "ascii s = map of_char s"


section \<open>Data model\<close>

text \<open>
  One item of the search result, with the four keys \<open>main\<close> reads. \<open>description\<close> is
  \<open>null\<close> in the JSON of a repository without one, hence the option.
\<close>

record repo =
  full_name :: pystr
  stargazers_count :: int
  description :: "pystr option"
  html_url :: pystr

text \<open>
  What \<open>resp.json()\<close> can give, as far as \<open>search_repos\<close> looks at it: an object
  with an \<open>items\<close> list; an object without the key, on which \<open>data["items"]\<close>
  raises \<open>KeyError\<close>; or a value that is no object (a list, a string, a number,
  \<open>null\<close>), on which it raises \<open>TypeError\<close>.
\<close>

datatype json_doc = With_items "repo list" | Object_without_items | Not_an_object

record response =
  status_code :: int
  body_text :: pystr
  body_json :: "json_doc option"  \<comment> \<open>\<open>None\<close>: the body is not JSON, \<open>resp.json()\<close> raises\<close>

text \<open>A call of \<open>requests\<close> returns a response or raises for a transport failure.\<close>

datatype http_outcome = Transport_failure | Response response

text \<open>
  \<open>model.generate_content(prompt)\<close> raises (quota, authentication, malformed request;
  reading \<open>response.text\<close> can raise as well) or gives a response whose \<open>text\<close> is a
  string or \<open>None\<close>.
\<close>

datatype gen_outcome = Generation_raises | Generated "pystr option"

record payload =
  content :: pystr
  username :: pystr

text \<open>
  The three external services. Each is a function of the request it receives: the
  script is sequential and keeps no state between calls, and the services are black boxes.
  \<open>requests_get\<close> takes the URL, the query parameters and whether the raw media type is
  asked for (the only header that varies).
\<close>

record world =
  requests_get :: "pystr \<Rightarrow> (pystr \<times> pystr) list \<Rightarrow> bool \<Rightarrow> http_outcome"
  generate_content :: "pystr \<Rightarrow> gen_outcome"
  requests_post :: "payload \<Rightarrow> http_outcome"

text \<open>The exceptions that can leave a function of the script.\<close>

datatype exn =
    HTTPError int
  | ConnectionError
  | JSONDecodeError
  | KeyError
  | TypeError
  | GenerationError

text \<open>
  Every call to a service is recorded, in order. A function with effects returns its
  result (or the exception that left it) together with the calls it made. Console output
  is not modelled.
\<close>

datatype event =
    Get_request pystr "(pystr \<times> pystr) list" bool
  | Generate_request pystr
  | Post_request payload

type_synonym 'a run = "(exn + 'a) \<times> event list"

fun posted :: "event list \<Rightarrow> payload list" where
  "posted [] = []"
| "posted (Post_request p # es) = p # posted es"
| "posted (_ # es) = posted es"

fun prompts :: "event list \<Rightarrow> pystr list" where
  "prompts [] = []"
| "prompts (Generate_request p # es) = p # prompts es"
| "prompts (_ # es) = prompts es"


section \<open>GitHub requests\<close>

text \<open>
  \<open>Response.raise_for_status\<close> of the \<open>requests\<close> library: it raises \<open>HTTPError\<close> for a
  client error (400 to 499) or a server error (500 to 599), and returns otherwise.
\<close>

definition is_error_status :: "int \<Rightarrow> bool" where
  "is_error_status s = (400 \<le> s \<and> s < 600)"

definition raise_for_status :: "response \<Rightarrow> exn + unit" where
  "raise_for_status resp =
     (if is_error_status (status_code resp) then Inl (HTTPError (status_code resp))
      else Inr ())"

text \<open>
  \<open>github_request\<close>, lines 42 to 51: the request and the status check. The function
  returns \<open>resp.text\<close> or \<open>resp.json()\<close> depending on \<open>accept_raw\<close> (line 52); the two
  return types are the two functions that follow. \<open>params=None\<close> is the empty list.
\<close>

definition github_response ::
  "world \<Rightarrow> pystr \<Rightarrow> (pystr \<times> pystr) list \<Rightarrow> bool \<Rightarrow> response run" where
  "github_response w path params accept_raw =
     (let url = GITHUB_API_BASE @ path;
          es = [Get_request url params accept_raw]
      in case requests_get w url params accept_raw of
           Transport_failure \<Rightarrow> (Inl ConnectionError, es)
         | Response resp \<Rightarrow>
             if status_code resp \<noteq> 200 then
               (case raise_for_status resp of
                  Inl e \<Rightarrow> (Inl e, es)
                | Inr _ \<Rightarrow> (Inr resp, es))
             else (Inr resp, es))"

definition github_request_raw :: "world \<Rightarrow> pystr \<Rightarrow> (pystr \<times> pystr) list \<Rightarrow> pystr run" where
  "github_request_raw w path params =
     (case github_response w path params True of
        (Inl e, es) \<Rightarrow> (Inl e, es)
      | (Inr resp, es) \<Rightarrow> (Inr (body_text resp), es))"

definition github_request_json :: "world \<Rightarrow> pystr \<Rightarrow> (pystr \<times> pystr) list \<Rightarrow> json_doc run" where
  "github_request_json w path params =
     (case github_response w path params False of
        (Inl e, es) \<Rightarrow> (Inl e, es)
      | (Inr resp, es) \<Rightarrow>
          (case body_json resp of
             None \<Rightarrow> (Inl JSONDecodeError, es)
           | Some d \<Rightarrow> (Inr d, es)))"

definition search_params :: "pystr \<Rightarrow> int \<Rightarrow> (pystr \<times> pystr) list" where
  "search_params q per_page =
     [(ascii ''q'', q), (ascii ''sort'', ascii ''stars''), (ascii ''order'', ascii ''desc''),
      (ascii ''per_page'', str_int per_page)]"

definition search_repos :: "world \<Rightarrow> pystr \<Rightarrow> int \<Rightarrow> repo list run" where
  "search_repos w q per_page =
     (case github_request_json w (ascii ''/search/repositories'') (search_params q per_page) of
        (Inl e, es) \<Rightarrow> (Inl e, es)
      | (Inr (With_items items), es) \<Rightarrow> (Inr items, es)
      | (Inr Object_without_items, es) \<Rightarrow> (Inl KeyError, es)
      | (Inr Not_an_object, es) \<Rightarrow> (Inl TypeError, es))"

definition readme_path :: "pystr \<Rightarrow> pystr \<Rightarrow> pystr" where
  "readme_path owner name = ascii ''/repos/'' @ owner @ ascii ''/'' @ name @ ascii ''/readme''"

text \<open>\<open>fetch_readme\<close>: only \<open>requests.HTTPError\<close> is caught and turned into \<open>None\<close>.\<close>

definition fetch_readme :: "world \<Rightarrow> pystr \<Rightarrow> pystr \<Rightarrow> pystr option run" where
  "fetch_readme w owner name =
     (case github_request_raw w (readme_path owner name) [] of
        (Inr readme_text, es) \<Rightarrow> (Inr (Some readme_text), es)
      | (Inl (HTTPError s), es) \<Rightarrow> (Inr None, es)
      | (Inl e, es) \<Rightarrow> (Inl e, es))"


section \<open>Summarising\<close>

definition max_chars :: nat where
  "max_chars = 5000"

definition gemini_prompt :: "pystr \<Rightarrow> pystr \<Rightarrow> pystr" where
  "gemini_prompt name readme_text =
     prompt_head @ name @ prompt_middle @ readme_text @ prompt_tail"

definition summarize_with_gemini :: "world \<Rightarrow> pystr \<Rightarrow> pystr \<Rightarrow> pystr run" where
  "summarize_with_gemini w name readme_text =
     (let readme_text' =
            (if length readme_text > max_chars
             then take max_chars readme_text @ readme_cut_marker
             else readme_text);
          prompt = gemini_prompt name readme_text'
      in case generate_content w prompt of
           Generation_raises \<Rightarrow> (Inl GenerationError, [Generate_request prompt])
         | Generated t \<Rightarrow>
             (Inr (py_strip (case t of None \<Rightarrow> [] | Some s \<Rightarrow> s)),
              [Generate_request prompt]))"


section \<open>Delivering\<close>

definition send_to_discord :: "world \<Rightarrow> pystr \<Rightarrow> unit run" where
  "send_to_discord w msg =
     (let msg' = (if length msg > 1900 then take 1900 msg @ discord_cut_marker else msg);
          p = \<lparr>content = msg', username = discord_username\<rparr>
      in case requests_post w p of
           Transport_failure \<Rightarrow> (Inl ConnectionError, [Post_request p])
         | Response r \<Rightarrow> (Inr (), [Post_request p]))"


section \<open>The main loop\<close>

text \<open>The message of lines 160 to 172: the f-string, dedented, then stripped.\<close>

definition message_template ::
  "nat \<Rightarrow> pystr \<Rightarrow> int \<Rightarrow> pystr \<Rightarrow> pystr \<Rightarrow> pystr \<Rightarrow> pystr" where
  "message_template rank name stars url desc summary =
     t_rank @ str_nat rank @ t_name @ name @ t_stars @ str_int stars @ t_url @ url
     @ t_desc @ desc @ t_summary @ summary @ t_end"

definition digest_message :: "nat \<Rightarrow> repo \<Rightarrow> pystr \<Rightarrow> pystr" where
  "digest_message rank r summary =
     py_strip (dedent (message_template rank (full_name r) (stargazers_count r) (html_url r)
        (case description r of None \<Rightarrow> [] | Some d \<Rightarrow> d) summary))"

text \<open>
  \<open>fetch_readme(*full_name.split("/"))\<close>: the call raises \<open>TypeError\<close> unless the split
  gives exactly the two arguments.
\<close>

definition fetch_readme_of :: "world \<Rightarrow> pystr \<Rightarrow> pystr option run" where
  "fetch_readme_of w name =
     (case py_split 47 name of
        [owner, rname] \<Rightarrow> fetch_readme w owner rname
      | _ \<Rightarrow> (Inl TypeError, []))"

text \<open>
  The body of the loop for one candidate (lines 145 to 174). \<open>if not readme\<close> holds for
  \<open>None\<close> and for the empty string; \<open>continue\<close> ends the body normally.
\<close>

definition candidate_body :: "world \<Rightarrow> nat \<times> repo \<Rightarrow> unit run" where
  "candidate_body w c =
     (case c of (rank, r) \<Rightarrow>
        (case fetch_readme_of w (full_name r) of
           (Inl e, es) \<Rightarrow> (Inl e, es)
         | (Inr None, es) \<Rightarrow> (Inr (), es)
         | (Inr (Some readme), es) \<Rightarrow>
             if readme = [] then (Inr (), es)
             else
               (case summarize_with_gemini w (full_name r) readme of
                  (Inl e, es2) \<Rightarrow> (Inl e, es @ es2)
                | (Inr summary, es2) \<Rightarrow>
                    (case send_to_discord w (digest_message rank r summary) of
                       (res, es3) \<Rightarrow> (res, es @ es2 @ es3)))))"

text \<open>The \<open>for\<close> loop: an exception that leaves the body leaves the loop.\<close>

fun for_each_candidate :: "world \<Rightarrow> (nat \<times> repo) list \<Rightarrow> unit run" where
  "for_each_candidate w [] = (Inr (), [])"
| "for_each_candidate w (c # cs) =
     (case candidate_body w c of
        (Inl e, es) \<Rightarrow> (Inl e, es)
      | (Inr _, es) \<Rightarrow>
          (case for_each_candidate w cs of (res, es') \<Rightarrow> (res, es @ es')))"

text \<open>
  \<open>main\<close> with the page size and the number of summarised candidates as parameters;
  the script runs it with \<open>per_page=5\<close> and \<open>TOP_N\<close>.
\<close>

definition pipeline :: "world \<Rightarrow> int \<Rightarrow> nat \<Rightarrow> unit run" where
  "pipeline w per_page top_n =
     (case search_repos w query per_page of
        (Inl e, es) \<Rightarrow> (Inl e, es)
      | (Inr repos, es) \<Rightarrow>
          (case for_each_candidate w (enumerate 1 (take top_n repos)) of
             (res, es') \<Rightarrow> (res, es @ es')))"

definition main :: "world \<Rightarrow> unit run" where
  "main w = pipeline w 5 TOP_N"


section \<open>Observations on a run\<close>

text \<open>What \<open>send_to_discord\<close> puts into the payload for a message (lines 118 and 119).\<close>

definition discord_content :: "pystr \<Rightarrow> pystr" where
  "discord_content msg =
     (if length msg > 1900 then take 1900 msg @ discord_cut_marker else msg)"

text \<open>The candidates of a run: the items of the search result.\<close>

definition candidates :: "world \<Rightarrow> int \<Rightarrow> repo list" where
  "candidates w per_page =
     (case search_repos w query per_page of
        (Inr repos, es) \<Rightarrow> repos
      | (Inl e, es) \<Rightarrow> [])"

text \<open>A candidate has documentation when fetching its README returns a text.\<close>

definition has_documentation :: "world \<Rightarrow> repo \<Rightarrow> bool" where
  "has_documentation w r =
     (case fetch_readme_of w (full_name r) of
        (Inr (Some t), es) \<Rightarrow> True
      | _ \<Rightarrow> False)"

text \<open>The README the loop goes on with: the fetched text, empty when there is none.\<close>

definition usable_readme :: "world \<Rightarrow> repo \<Rightarrow> pystr" where
  "usable_readme w r =
     (case fetch_readme_of w (full_name r) of
        (Inr (Some t), es) \<Rightarrow> t
      | _ \<Rightarrow> [])"

definition summary_of :: "world \<Rightarrow> repo \<Rightarrow> pystr" where
  "summary_of w r =
     (case summarize_with_gemini w (full_name r) (usable_readme w r) of
        (Inr s, es) \<Rightarrow> s
      | (Inl e, es) \<Rightarrow> [])"

text \<open>
  The payload contents a run delivers when no exception ends it: for each candidate
  with a non-empty README, in order, the message composed with the rank the loop gave it.
\<close>

definition expected_contents :: "world \<Rightarrow> (nat \<times> repo) list \<Rightarrow> pystr list" where
  "expected_contents w cs =
     map (\<lambda>c. discord_content (digest_message (fst c) (snd c) (summary_of w (snd c))))
       (filter (\<lambda>c. usable_readme w (snd c) \<noteq> []) cs)"

text \<open>
  The reading of the specification in which ranks are renumbered over the candidates whose
  documentation was found: the k-th such candidate is announced with rank k.
\<close>

definition renumbered_contents :: "world \<Rightarrow> repo list \<Rightarrow> pystr list" where
  "renumbered_contents w repos =
     expected_contents w (enumerate 1 (filter (has_documentation w) repos))"

text \<open>The first line of every message: the badge, the word for rank, the rank.\<close>

definition rank_line :: "nat \<Rightarrow> pystr" where
  "rank_line rank = [127941, 32, 12521, 12531, 12463, 32] @ str_nat rank @ [10]"


section \<open>Example runs\<close>

text \<open>
  The two candidates of the end-to-end example: \<open>a/x\<close> with 500 stars and \<open>b/y\<close> with 300.
\<close>

definition repo_a :: repo where
  "repo_a = \<lparr>full_name = ascii ''a/x'', stargazers_count = 500,
              description = Some (ascii ''d1''), html_url = ascii ''u1''\<rparr>"

definition repo_b :: repo where
  "repo_b = \<lparr>full_name = ascii ''b/y'', stargazers_count = 300,
              description = Some (ascii ''d2''), html_url = ascii ''u2''\<rparr>"

definition search_url :: pystr where
  "search_url = GITHUB_API_BASE @ ascii ''/search/repositories''"

definition readme_url :: "pystr \<Rightarrow> pystr \<Rightarrow> pystr" where
  "readme_url owner name = GITHUB_API_BASE @ readme_path owner name"

definition text_response :: "int \<Rightarrow> pystr \<Rightarrow> http_outcome" where
  "text_response s t = Response \<lparr>status_code = s, body_text = t, body_json = None\<rparr>"

definition items_response :: "int \<Rightarrow> repo list \<Rightarrow> http_outcome" where
  "items_response s items =
     Response \<lparr>status_code = s, body_text = [], body_json = Some (With_items items)\<rparr>"

text \<open>
  A family of worlds: the search answers \<open>found\<close>; the README request for \<open>a/x\<close> answers
  \<open>readme_a\<close> and every other README request answers 200 with the text \<open>doc\<close>; the
  generative service answers \<open>gen_a\<close> to the prompt for \<open>a/x\<close> with README \<open>doc\<close> and
  \<open>" S2 "\<close> to every other prompt; the webhook answers 204.
\<close>

definition example_world :: "http_outcome \<Rightarrow> http_outcome \<Rightarrow> gen_outcome \<Rightarrow> world" where
  "example_world found readme_a gen_a =
     \<lparr>requests_get = (\<lambda>url params raw.
         if url = search_url then found
         else if url = readme_url (ascii ''a'') (ascii ''x'') then readme_a
         else text_response 200 (ascii ''doc'')),
      generate_content = (\<lambda>p.
         if p = gemini_prompt (ascii ''a/x'') (ascii ''doc'') then gen_a
         else Generated (Some (ascii '' S2 ''))),
      requests_post = (\<lambda>p. text_response 204 [])\<rparr>"

text \<open>Both candidates have a README and both summaries are generated.\<close>

definition world_all_good :: world where
  "world_all_good =
     example_world (items_response 200 [repo_a, repo_b]) (text_response 200 (ascii ''doc''))
       (Generated (Some (ascii ''S1'')))"

text \<open>The generative call for the first candidate raises.\<close>

definition world_generation_fails :: world where
  "world_generation_fails =
     example_world (items_response 200 [repo_a, repo_b]) (text_response 200 (ascii ''doc''))
       Generation_raises"

text \<open>The first candidate has no README: the provider answers 404.\<close>

definition world_readme_missing :: world where
  "world_readme_missing =
     example_world (items_response 200 [repo_a, repo_b])
       (text_response 404 (ascii ''Not Found'')) (Generated (Some (ascii ''S1'')))"

text \<open>The first candidate's README exists and is empty.\<close>

definition world_readme_empty :: world where
  "world_readme_empty =
     example_world (items_response 200 [repo_a, repo_b]) (text_response 200 [])
       (Generated (Some (ascii ''S1'')))"

text \<open>The search answers 300 (Multiple Choices) with a body that lists one candidate.\<close>

definition world_search_300 :: world where
  "world_search_300 =
     example_world (items_response 300 [repo_b]) (text_response 200 (ascii ''doc''))
       (Generated (Some (ascii ''S1'')))"

text \<open>The search answers 503.\<close>

definition world_search_503 :: world where
  "world_search_503 =
     example_world (text_response 503 (ascii ''Service Unavailable''))
       (text_response 200 (ascii ''doc'')) (Generated (Some (ascii ''S1'')))"


text \<open>
  The search lists \<open>b/y\<close> first and \<open>a/x\<close> second, and the generative call for
  \<open>a/x\<close> raises.
\<close>

definition world_second_fails :: world where
  "world_second_fails =
     example_world (items_response 200 [repo_b, repo_a]) (text_response 200 (ascii ''doc''))
       Generation_raises"

text \<open>The generative service returns no text for the first candidate.\<close>

definition world_no_text :: world where
  "world_no_text =
     example_world (items_response 200 [repo_a, repo_b]) (text_response 200 (ascii ''doc''))
       (Generated None)"


text \<open>
  The message for \<open>b/y\<close> with summary \<open>S2\<close>, after its first line (the rank line).
\<close>

definition digest_b_rest :: pystr where
  "digest_b_rest =
     [10, 128216, 32, 42, 42, 98, 47, 121, 42, 42, 10, 11088, 32, 83, 116, 97, 114, 115, 58,
      32, 51, 48, 48, 10, 128279, 32, 117, 50, 10, 10, 128221, 32, 35500, 26126, 58, 10,
      100, 50, 10, 10, 129504, 32, 82, 69, 65, 68, 77, 69, 32, 35201, 32004, 32, 40, 71,
      101, 109, 105, 110, 105, 41, 58, 10, 83, 50]"


section \<open>Basic facts\<close>

lemma posted_append: "posted (es @ es') = posted es @ posted es'"
  by (induction es rule: posted.induct) simp_all

lemma prompts_append: "prompts (es @ es') = prompts es @ prompts es'"
  by (induction es rule: prompts.induct) simp_all

lemma discord_cut_marker_length: "length discord_cut_marker = 15"
  by (simp add: discord_cut_marker_def)

lemma example_generate:
  "generate_content (example_world found readme_a gen_a) p =
     (if p = gemini_prompt (ascii ''a/x'') (ascii ''doc'') then gen_a
      else Generated (Some (ascii '' S2 '')))"
  by (simp add: example_world_def)

lemma example_post: "requests_post (example_world found readme_a gen_a) p = text_response 204 []"
  by (simp add: example_world_def)


section \<open>The Notifier\<close>

lemma send_to_discord_events:
  "snd (send_to_discord w msg) =
     [Post_request \<lparr>content = discord_content msg, username = discord_username\<rparr>]"
  by (simp add: send_to_discord_def discord_content_def Let_def split: http_outcome.split)

text \<open>
  Claim C3. \<open>send_to_discord\<close> posts exactly one payload. A message of at most 1900
  characters is its content unchanged, with no marker; a longer message is cut to its
  first 1900 characters, followed by the fixed marker.
\<close>

theorem send_to_discord_cap:
  "(length msg \<le> 1900 \<longrightarrow>
      snd (send_to_discord w msg) =
        [Post_request \<lparr>content = msg, username = discord_username\<rparr>])
   \<and> (1900 < length msg \<longrightarrow>
      snd (send_to_discord w msg) =
        [Post_request \<lparr>content = take 1900 msg @ discord_cut_marker,
                        username = discord_username\<rparr>])"
  by (simp add: send_to_discord_events discord_content_def)

theorem send_to_discord_cap_witness:
  "length (ascii ''hi'') \<le> 1900
   \<and> snd (send_to_discord world_all_good (ascii ''hi'')) =
        [Post_request \<lparr>content = ascii ''hi'', username = discord_username\<rparr>]
   \<and> 1900 < length (replicate 1901 (97::nat))
   \<and> snd (send_to_discord world_all_good (replicate 1901 97)) =
        [Post_request \<lparr>content = replicate 1900 97 @ discord_cut_marker,
                        username = discord_username\<rparr>]"
  using send_to_discord_cap [of "ascii ''hi''" world_all_good]
        send_to_discord_cap [of "replicate 1901 97" world_all_good]
  by (simp add: ascii_def)

text \<open>
  Claim C10. For a message longer than 1900 characters the delivered content has
  1900 characters plus the marker's 15, which is more than 1900: the cap bounds the
  text kept, not the payload.
\<close>

theorem truncated_payload_length:
  assumes "1900 < length msg"
  shows "map (\<lambda>p. length (content p)) (posted (snd (send_to_discord w msg)))
           = [1900 + length discord_cut_marker]
         \<and> 1900 < 1900 + length discord_cut_marker"
  using assms
  by (simp add: send_to_discord_events discord_content_def discord_cut_marker_length)

theorem truncated_payload_length_witness:
  "1900 < length (replicate 1901 (97::nat))
   \<and> map (\<lambda>p. length (content p))
         (posted (snd (send_to_discord world_all_good (replicate 1901 97)))) = [1915]"
  using truncated_payload_length [of "replicate 1901 97" world_all_good]
  by (simp add: discord_cut_marker_length)


section \<open>The SummarizationEngine\<close>

lemma summarize_events:
  "snd (summarize_with_gemini w name readme) =
     [Generate_request (gemini_prompt name
        (if max_chars < length readme then take max_chars readme @ readme_cut_marker
         else readme))]"
  by (simp add: summarize_with_gemini_def Let_def split: gen_outcome.split)

text \<open>
  Claim C4. The one prompt sent to the generative service embeds, between the fixed
  pieces of the template, the first 5000 characters of the README followed by the fixed
  marker when the README is longer than 5000 characters, and the README itself otherwise.
\<close>

theorem summarize_input_cap:
  "(5000 < length readme \<longrightarrow>
      snd (summarize_with_gemini w name readme) =
        [Generate_request (prompt_head @ name @ prompt_middle
           @ (take 5000 readme @ readme_cut_marker) @ prompt_tail)])
   \<and> (length readme \<le> 5000 \<longrightarrow>
      snd (summarize_with_gemini w name readme) =
        [Generate_request (prompt_head @ name @ prompt_middle @ readme @ prompt_tail)])"
  by (simp add: summarize_events gemini_prompt_def max_chars_def)

theorem summarize_input_cap_witness:
  "5000 < length (replicate 5001 (97::nat))
   \<and> snd (summarize_with_gemini world_all_good (ascii ''a/x'') (replicate 5001 97)) =
        [Generate_request (prompt_head @ ascii ''a/x'' @ prompt_middle
           @ (replicate 5000 97 @ readme_cut_marker) @ prompt_tail)]
   \<and> length (ascii ''doc'') \<le> 5000
   \<and> snd (summarize_with_gemini world_all_good (ascii ''a/x'') (ascii ''doc'')) =
        [Generate_request (prompt_head @ ascii ''a/x'' @ prompt_middle @ ascii ''doc''
           @ prompt_tail)]"
  using summarize_input_cap [of "replicate 5001 97" world_all_good "ascii ''a/x''"]
        summarize_input_cap [of "ascii ''doc''" world_all_good "ascii ''a/x''"]
  by (simp add: ascii_def)

text \<open>Stripping removes whitespace at both ends and nothing else.\<close>

lemma py_strip_decompose:
  "\<exists>pre post. s = pre @ py_strip s @ post \<and> list_all py_isspace pre \<and> list_all py_isspace post"
proof -
  let ?a = "takeWhile py_isspace s" and ?m = "dropWhile py_isspace s"
  let ?b = "takeWhile py_isspace (rev ?m)"
  have "rev ?m = ?b @ dropWhile py_isspace (rev ?m)" by simp
  then have "?m = py_strip s @ rev ?b"
    unfolding py_strip_def by (metis rev_append rev_rev_ident)
  then have "s = ?a @ py_strip s @ rev ?b"
    by (metis takeWhile_dropWhile_id)
  moreover have "list_all py_isspace ?a"
    by (simp add: list_all_iff) (meson set_takeWhileD)
  moreover have "list_all py_isspace (rev ?b)"
    by (simp add: list_all_iff) (meson set_takeWhileD)
  ultimately show ?thesis by blast
qed

lemma py_strip_ends:
  assumes "py_strip s \<noteq> []"
  shows "\<not> py_isspace (hd (py_strip s)) \<and> \<not> py_isspace (last (py_strip s))"
proof -
  let ?m = "dropWhile py_isspace s"
  let ?d = "dropWhile py_isspace (rev ?m)"
  have d: "?d \<noteq> []" using assms by (simp add: py_strip_def)
  then have 1: "\<not> py_isspace (hd ?d)" by (rule hd_dropWhile)
  have "last (py_strip s) = hd ?d" using d by (simp add: py_strip_def last_rev)
  with 1 have last: "\<not> py_isspace (last (py_strip s))" by simp
  have m: "?m \<noteq> []"
  proof
    assume a: "?m = []"
    have "?d = []" unfolding a by simp
    with d show False by blast
  qed
  then have hm: "\<not> py_isspace (hd ?m)" by (rule hd_dropWhile)
  obtain b where b: "?m = py_strip s @ b"
    by (metis py_strip_def rev_append rev_rev_ident takeWhile_dropWhile_id)
  then have "hd ?m = hd (py_strip s)" using assms by (metis hd_append2)
  with hm last show ?thesis by simp
qed

text \<open>
  Claim C9. When the generative service answers the prompt built from the name and the
  capped README, with a text or with none, \<open>summarize_with_gemini\<close> makes that one
  call and returns the text (the empty string for none) with the whitespace at both
  ends removed: the text is the result between two runs of whitespace, and the result,
  unless empty, neither starts nor ends with whitespace. An empty result is returned
  like any other.
\<close>

theorem summarize_result:
  assumes "generate_content w
             (gemini_prompt name
                (if max_chars < length readme then take max_chars readme @ readme_cut_marker
                 else readme)) = Generated t"
  shows "\<exists>res pre post.
           summarize_with_gemini w name readme =
             (Inr res,
              [Generate_request (gemini_prompt name
                 (if max_chars < length readme
                  then take max_chars readme @ readme_cut_marker else readme))])
         \<and> res = py_strip (case t of None \<Rightarrow> [] | Some s \<Rightarrow> s)
         \<and> (case t of None \<Rightarrow> [] | Some s \<Rightarrow> s) = pre @ res @ post
         \<and> list_all py_isspace pre \<and> list_all py_isspace post
         \<and> (res = [] \<or> \<not> py_isspace (hd res) \<and> \<not> py_isspace (last res))"
proof -
  let ?g = "case t of None \<Rightarrow> [] | Some s \<Rightarrow> s"
  from assms have r: "summarize_with_gemini w name readme =
             (Inr (py_strip ?g),
              [Generate_request (gemini_prompt name
                 (if max_chars < length readme
                  then take max_chars readme @ readme_cut_marker else readme))])"
    by (simp add: summarize_with_gemini_def Let_def)
  obtain pre post where
    "?g = pre @ py_strip ?g @ post" "list_all py_isspace pre" "list_all py_isspace post"
    using py_strip_decompose by blast
  moreover have "py_strip ?g = []
      \<or> \<not> py_isspace (hd (py_strip ?g)) \<and> \<not> py_isspace (last (py_strip ?g))"
    using py_strip_ends by blast
  ultimately show ?thesis using r by blast
qed

theorem summarize_result_witness:
  "generate_content world_all_good (gemini_prompt (ascii ''b/y'') (ascii ''doc''))
     = Generated (Some (ascii '' S2 ''))
   \<and> summarize_with_gemini world_all_good (ascii ''b/y'') (ascii ''doc'')
     = (Inr (ascii ''S2''), [Generate_request (gemini_prompt (ascii ''b/y'') (ascii ''doc''))])
   \<and> generate_content world_no_text (gemini_prompt (ascii ''a/x'') (ascii ''doc''))
     = Generated None
   \<and> summarize_with_gemini world_no_text (ascii ''a/x'') (ascii ''doc'')
     = (Inr [], [Generate_request (gemini_prompt (ascii ''a/x'') (ascii ''doc''))])"
proof -
  have short: "\<not> max_chars < length (ascii ''doc'')"
    by (simp add: max_chars_def ascii_def)
  have ne: "gemini_prompt (ascii ''b/y'') (ascii ''doc'')
              \<noteq> gemini_prompt (ascii ''a/x'') (ascii ''doc'')"
    by (simp add: gemini_prompt_def ascii_def)
  have 1: "generate_content world_all_good (gemini_prompt (ascii ''b/y'') (ascii ''doc''))
             = Generated (Some (ascii '' S2 ''))"
    using ne by (simp add: world_all_good_def example_generate)
  have 2: "generate_content world_no_text (gemini_prompt (ascii ''a/x'') (ascii ''doc''))
             = Generated None"
    by (simp add: world_no_text_def example_generate)
  have s: "py_strip (ascii '' S2 '') = ascii ''S2''"
    by (simp add: py_strip_def py_isspace_def ascii_def)
  from summarize_result [of world_all_good "ascii ''b/y''" "ascii ''doc''" "Some (ascii '' S2 '')"]
    1 short
  have a: "summarize_with_gemini world_all_good (ascii ''b/y'') (ascii ''doc'')
     = (Inr (ascii ''S2''), [Generate_request (gemini_prompt (ascii ''b/y'') (ascii ''doc''))])"
    by (auto simp: s)
  from summarize_result [of world_no_text "ascii ''a/x''" "ascii ''doc''" None] 2 short
  have b: "summarize_with_gemini world_no_text (ascii ''a/x'') (ascii ''doc'')
     = (Inr [], [Generate_request (gemini_prompt (ascii ''a/x'') (ascii ''doc''))])"
    by (auto simp: py_strip_def)
  from 1 a 2 b show ?thesis by blast
qed


section \<open>GitHub requests\<close>

lemma github_response_error:
  assumes "requests_get w (GITHUB_API_BASE @ path) params raw = Response resp"
      and "is_error_status (status_code resp)"
  shows "github_response w path params raw =
           (Inl (HTTPError (status_code resp)), [Get_request (GITHUB_API_BASE @ path) params raw])"
  using assms
  by (auto simp: github_response_def raise_for_status_def is_error_status_def Let_def)

lemma github_response_pass:
  assumes "requests_get w (GITHUB_API_BASE @ path) params raw = Response resp"
      and "\<not> is_error_status (status_code resp)"
  shows "github_response w path params raw =
           (Inr resp, [Get_request (GITHUB_API_BASE @ path) params raw])"
  using assms
  by (simp add: github_response_def raise_for_status_def Let_def)

lemma github_response_events:
  "snd (github_response w path params raw) = [Get_request (GITHUB_API_BASE @ path) params raw]"
  by (simp add: github_response_def Let_def split: http_outcome.split sum.split)

lemma fetch_readme_events:
  "snd (fetch_readme w owner name) = [Get_request (readme_url owner name) [] True]"
  using github_response_events [of w "readme_path owner name" "[]" True]
  by (auto simp: fetch_readme_def github_request_raw_def readme_url_def
           split: prod.splits sum.splits exn.splits)

lemma fetch_readme_of_posted: "posted (snd (fetch_readme_of w n)) = []"
  by (simp add: fetch_readme_of_def fetch_readme_events split: list.split)

lemma fetch_readme_of_prompts: "prompts (snd (fetch_readme_of w n)) = []"
  by (simp add: fetch_readme_of_def fetch_readme_events split: list.split)


section \<open>Evaluating the example worlds\<close>

lemma example_get:
  "requests_get (example_world found readme_a gen_a) url params raw =
     (if url = search_url then found
      else if url = readme_url (ascii ''a'') (ascii ''x'') then readme_a
      else text_response 200 (ascii ''doc''))"
  by (simp add: example_world_def)

lemma example_search:
  assumes "\<not> is_error_status s"
  shows "search_repos (example_world (items_response s items) readme_a gen_a) q pp =
     (Inr items, [Get_request search_url (search_params q pp) False])"
  using assms
  by (simp add: search_repos_def github_request_json_def github_response_def example_get
        search_url_def items_response_def raise_for_status_def Let_def)

lemma split_a: "py_split 47 (ascii ''a/x'') = [ascii ''a'', ascii ''x'']"
  by (simp add: ascii_def)

lemma split_b: "py_split 47 (ascii ''b/y'') = [ascii ''b'', ascii ''y'']"
  by (simp add: ascii_def)

lemma example_fetch_b:
  "fetch_readme_of (example_world found readme_a gen_a) (ascii ''b/y'') =
     (Inr (Some (ascii ''doc'')), [Get_request (readme_url (ascii ''b'') (ascii ''y'')) [] True])"
  by (simp add: fetch_readme_of_def split_b fetch_readme_def github_request_raw_def
        github_response_def example_get readme_url_def search_url_def readme_path_def
        text_response_def ascii_def)

lemma example_fetch_a:
  "fetch_readme_of (example_world found (text_response s t) gen_a) (ascii ''a/x'') =
     (if is_error_status s then Inr None else Inr (Some t),
      [Get_request (readme_url (ascii ''a'') (ascii ''x'')) [] True])"
  by (auto simp: fetch_readme_of_def split_a fetch_readme_def github_request_raw_def
        github_response_def example_get readme_url_def search_url_def readme_path_def
        text_response_def raise_for_status_def is_error_status_def ascii_def Let_def)

lemma strip_S2: "py_strip (ascii '' S2 '') = ascii ''S2''"
  by (simp add: py_strip_def py_isspace_def ascii_def)

lemma strip_S1: "py_strip (ascii ''S1'') = ascii ''S1''"
  by (simp add: py_strip_def py_isspace_def ascii_def)

lemma example_summarize_b:
  "summarize_with_gemini (example_world found readme_a gen_a) (ascii ''b/y'') (ascii ''doc'') =
     (Inr (ascii ''S2''), [Generate_request (gemini_prompt (ascii ''b/y'') (ascii ''doc''))])"
proof -
  have "gemini_prompt (ascii ''b/y'') (ascii ''doc'') \<noteq> gemini_prompt (ascii ''a/x'') (ascii ''doc'')"
    by (simp add: gemini_prompt_def ascii_def)
  then show ?thesis
    by (simp add: summarize_with_gemini_def example_generate max_chars_def Let_def strip_S2)
       (simp add: ascii_def)
qed

lemma example_summarize_a:
  "summarize_with_gemini (example_world found readme_a gen_a) (ascii ''a/x'') (ascii ''doc'') =
     (case gen_a of Generation_raises \<Rightarrow> Inl GenerationError
                  | Generated t \<Rightarrow> Inr (py_strip (case t of None \<Rightarrow> [] | Some s \<Rightarrow> s)),
      [Generate_request (gemini_prompt (ascii ''a/x'') (ascii ''doc''))])"
  by (simp add: summarize_with_gemini_def example_generate max_chars_def Let_def
        split: gen_outcome.split) (simp add: ascii_def)

lemma example_send:
  "send_to_discord (example_world found readme_a gen_a) msg =
     (Inr (), [Post_request \<lparr>content = discord_content msg, username = discord_username\<rparr>])"
  by (simp add: send_to_discord_def example_post text_response_def discord_content_def Let_def)

lemma example_body_b:
  "candidate_body (example_world found readme_a gen_a) (rank, repo_b) =
     (Inr (), [Get_request (readme_url (ascii ''b'') (ascii ''y'')) [] True,
               Generate_request (gemini_prompt (ascii ''b/y'') (ascii ''doc'')),
               Post_request \<lparr>content = discord_content (digest_message rank repo_b (ascii ''S2'')),
                              username = discord_username\<rparr>])"
proof -
  have n: "full_name repo_b = ascii ''b/y''" by (simp add: repo_b_def)
  have d: "ascii ''doc'' \<noteq> []" by (simp add: ascii_def)
  show ?thesis
    by (simp add: candidate_body_def n example_fetch_b d example_summarize_b example_send)
qed

lemma digest_b2: "digest_message 2 repo_b (ascii ''S2'') = rank_line 2 @ digest_b_rest"
  apply (simp add: digest_message_def message_template_def repo_b_def ascii_def t_rank_def
      t_name_def t_stars_def t_url_def t_desc_def t_summary_def t_end_def str_int_def
      str_nat.simps rank_line_def digest_b_rest_def)
  apply (simp add: dedent_def blank_whitespace_only_def is_indent_char_def margin_step_def
      startswith_def py_strip_def py_isspace_def)
  done

lemma digest_b1: "digest_message 1 repo_b (ascii ''S2'') = rank_line 1 @ digest_b_rest"
  apply (simp add: digest_message_def message_template_def repo_b_def ascii_def t_rank_def
      t_name_def t_stars_def t_url_def t_desc_def t_summary_def t_end_def str_int_def
      str_nat.simps rank_line_def digest_b_rest_def)
  apply (simp add: dedent_def blank_whitespace_only_def is_indent_char_def margin_step_def
      startswith_def py_strip_def py_isspace_def)
  done

lemma rank_line_values: "rank_line 1 = [127941, 32, 12521, 12531, 12463, 32, 49, 10]"
  "rank_line 2 = [127941, 32, 12521, 12531, 12463, 32, 50, 10]"
  by (simp_all add: rank_line_def str_nat.simps)

lemma content_b:
  "discord_content (digest_message 1 repo_b (ascii ''S2'')) = digest_message 1 repo_b (ascii ''S2'')"
  "discord_content (digest_message 2 repo_b (ascii ''S2'')) = digest_message 2 repo_b (ascii ''S2'')"
  unfolding digest_b1 digest_b2 rank_line_values
  by (simp_all add: discord_content_def digest_b_rest_def)

lemma example_slice:
  "enumerate 1 (take TOP_N [repo_a, repo_b]) = [(1, repo_a), (2, repo_b)]"
  "enumerate 1 (take TOP_N [repo_b]) = [(1, repo_b)]"
  by (simp_all add: TOP_N_def)


section \<open>The loop\<close>

lemma search_repos_events:
  "snd (search_repos w q pp) = [Get_request search_url (search_params q pp) False]"
  using github_response_events [of w "ascii ''/search/repositories''" "search_params q pp" False]
  by (auto simp: search_repos_def github_request_json_def search_url_def
           split: prod.splits sum.splits option.splits json_doc.splits)

lemma candidate_body_skip:
  assumes "fetch_readme_of w (full_name r) = (Inr x, es)" and "x = None \<or> x = Some []"
  shows "candidate_body w (rank, r) = (Inr (), es)"
  using assms by (auto simp: candidate_body_def)

lemma candidate_body_raise_fetch:
  assumes "fetch_readme_of w (full_name r) = (Inl e, es)"
  shows "candidate_body w (rank, r) = (Inl e, es)"
  using assms by (simp add: candidate_body_def)

lemma candidate_body_go:
  assumes "fetch_readme_of w (full_name r) = (Inr (Some t), es)" and "t \<noteq> []"
  shows "candidate_body w (rank, r) =
          (case summarize_with_gemini w (full_name r) t of
             (Inl e, es2) \<Rightarrow> (Inl e, es @ es2)
           | (Inr s, es2) \<Rightarrow>
               (fst (send_to_discord w (digest_message rank r s)),
                es @ es2 @ snd (send_to_discord w (digest_message rank r s))))"
  using assms by (simp add: candidate_body_def split: prod.splits sum.splits)

lemma expected_contents_Cons:
  "expected_contents w (c # cs) = expected_contents w [c] @ expected_contents w cs"
  by (simp add: expected_contents_def)

lemma candidate_body_contents:
  "\<exists>rest. expected_contents w [c] = map content (posted (snd (candidate_body w c))) @ rest
          \<and> (fst (candidate_body w c) = Inr () \<longrightarrow> rest = [])"
proof -
  obtain rank r where c: "c = (rank, r)" by (cases c)
  obtain res es where f: "fetch_readme_of w (full_name r) = (res, es)"
    by (cases "fetch_readme_of w (full_name r)")
  have pes: "posted es = []" using fetch_readme_of_posted [of w "full_name r"] f by simp
  show ?thesis
  proof (cases res)
    case (Inl e)
    with f have "candidate_body w (rank, r) = (Inl e, es)"
      by (simp add: candidate_body_raise_fetch)
    with pes c show ?thesis by simp
  next
    case (Inr x)
    show ?thesis
    proof (cases "x = None \<or> x = Some []")
      case True
      with f Inr have b: "candidate_body w (rank, r) = (Inr (), es)"
        by (simp add: candidate_body_skip)
      from True f Inr have "usable_readme w r = []"
        by (auto simp: usable_readme_def)
      then have "expected_contents w [c] = []" by (simp add: expected_contents_def c)
      with b pes c show ?thesis by simp
    next
      case False
      then obtain t where t: "x = Some t" "t \<noteq> []" by (cases x) auto
      with f Inr have ft: "fetch_readme_of w (full_name r) = (Inr (Some t), es)" by simp
      have u: "usable_readme w r = t" using ft by (simp add: usable_readme_def)
      obtain sres es2 where sm: "summarize_with_gemini w (full_name r) t = (sres, es2)"
        by (cases "summarize_with_gemini w (full_name r) t")
      have pes2: "posted es2 = []"
        using summarize_events [of w "full_name r" t] sm by simp
      show ?thesis
      proof (cases sres)
        case (Inl e)
        with sm have "candidate_body w (rank, r) = (Inl e, es @ es2)"
          by (simp add: candidate_body_go [OF ft t(2)])
        with pes pes2 c show ?thesis by (simp add: posted_append)
      next
        case (Inr sm_text)
        with sm have b: "candidate_body w (rank, r) =
            (fst (send_to_discord w (digest_message rank r sm_text)),
             es @ es2 @ snd (send_to_discord w (digest_message rank r sm_text)))"
          by (simp add: candidate_body_go [OF ft t(2)])
        have so: "summary_of w r = sm_text" using sm Inr u by (simp add: summary_of_def)
        have "expected_contents w [c] = [discord_content (digest_message rank r sm_text)]"
          using u t(2) so by (simp add: expected_contents_def c)
        moreover have "map content (posted (snd (candidate_body w c)))
                         = [discord_content (digest_message rank r sm_text)]"
          using b pes pes2 c by (simp add: posted_append send_to_discord_events)
        ultimately show ?thesis by simp
      qed
    qed
  qed
qed

lemma for_each_contents:
  "\<exists>rest. expected_contents w cs = map content (posted (snd (for_each_candidate w cs))) @ rest
          \<and> (fst (for_each_candidate w cs) = Inr () \<longrightarrow> rest = [])"
proof (induction cs)
  case Nil
  show ?case by (simp add: expected_contents_def)
next
  case (Cons c cs)
  obtain r1 where r1: "expected_contents w [c] = map content (posted (snd (candidate_body w c))) @ r1"
      "fst (candidate_body w c) = Inr () \<longrightarrow> r1 = []"
    using candidate_body_contents by blast
  obtain r2 where r2: "expected_contents w cs = map content (posted (snd (for_each_candidate w cs))) @ r2"
      "fst (for_each_candidate w cs) = Inr () \<longrightarrow> r2 = []"
    using Cons.IH by blast
  obtain res es where b: "candidate_body w c = (res, es)" by (cases "candidate_body w c")
  show ?case
  proof (cases res)
    case (Inl e)
    with b have "for_each_candidate w (c # cs) = (Inl e, es)" by simp
    with r1(1) b show ?thesis
      by (simp add: expected_contents_Cons [of w c cs])
  next
    case (Inr u)
    with b have fe: "for_each_candidate w (c # cs) =
        (fst (for_each_candidate w cs), es @ snd (for_each_candidate w cs))"
      by (simp split: prod.splits)
    from r1(2) b Inr have "r1 = []" by simp
    with r1(1) b have e1: "expected_contents w [c] = map content (posted es)" by simp
    show ?thesis
      using r2 unfolding fe expected_contents_Cons [of w c cs] e1
      by (simp add: posted_append)
  qed
qed

lemma for_each_raise:
  assumes "for_each_candidate w before = (Inr (), es1)"
      and "candidate_body w c = (Inl e, es2)"
  shows "for_each_candidate w (before @ c # after) = (Inl e, es1 @ es2)"
  using assms
proof (induction before arbitrary: es1)
  case Nil
  then show ?case by simp
next
  case (Cons b bs)
  obtain res es where b: "candidate_body w b = (res, es)" by (cases "candidate_body w b")
  obtain res' es' where r: "for_each_candidate w bs = (res', es')"
    by (cases "for_each_candidate w bs")
  from Cons.prems(1) b r have res: "res = Inr ()" "res' = Inr ()" "es1 = es @ es'"
    by (auto split: sum.splits)
  from Cons.IH [of es'] r res Cons.prems(2)
  have "for_each_candidate w (bs @ c # after) = (Inl e, es' @ es2)" by simp
  with b res show ?case by simp
qed



section \<open>The rank line of a message\<close>

lemma py_split_nonempty: "py_split sep s \<noteq> []"
  by (induction s) (auto split: list.splits)

lemma py_split_line: "sep \<notin> set a \<Longrightarrow> py_split sep (a @ sep # b) = a # py_split sep b"
  by (induction a) auto

lemma py_split_first: "sep \<notin> set a \<Longrightarrow> \<exists>l ls. py_split sep (a @ b) = (a @ l) # ls"
proof (induction a)
  case Nil
  then show ?case using py_split_nonempty [of sep b] by (cases "py_split sep b") auto
next
  case (Cons x a)
  then obtain l ls where "py_split sep (a @ b) = (a @ l) # ls" by auto
  with Cons.prems show ?case by simp
qed

lemma py_join_head: "\<exists>z. py_join sep (l # ls) = l @ z"
  by (cases ls) auto

lemma common_prefix_take: "\<exists>k. common_prefix a b = take k a"
proof (induction a arbitrary: b)
  case Nil
  have "common_prefix [] b = take 0 []" by simp
  then show ?case by blast
next
  case (Cons x xs)
  show ?case
  proof (cases b)
    case Nil
    then have "common_prefix (x # xs) b = take 0 (x # xs)" by simp
    then show ?thesis by blast
  next
    case (Cons y ys)
    show ?thesis
    proof (cases "x = y")
      case True
      obtain k where "common_prefix xs ys = take k xs" using Cons.IH by blast
      with True Cons have "common_prefix (x # xs) b = take (Suc k) (x # xs)" by simp
      then show ?thesis by blast
    next
      case False
      with Cons have "common_prefix (x # xs) b = take 0 (x # xs)" by simp
      then show ?thesis by blast
    qed
  qed
qed

lemma margin_step_take: "\<exists>k. margin_step (Some m) i = Some (take k m)"
proof -
  consider "startswith i m" | "\<not> startswith i m" "startswith m i"
    | "\<not> startswith i m" "\<not> startswith m i" by blast
  then show ?thesis
  proof cases
    case 1
    then have "margin_step (Some m) i = Some (take (length m) m)"
      by (simp add: margin_step_def)
    then show ?thesis by blast
  next
    case 2
    then have "margin_step (Some m) i = Some (take (length i) m)"
      by (simp add: margin_step_def startswith_def)
    then show ?thesis by blast
  next
    case 3
    obtain k where "common_prefix m i = take k m" using common_prefix_take by blast
    with 3 have "margin_step (Some m) i = Some (take k m)"
      by (simp add: margin_step_def)
    then show ?thesis by blast
  qed
qed

lemma foldl_margin_take: "\<exists>k. foldl margin_step (Some m) xs = Some (take k m)"
proof (induction xs arbitrary: m)
  case Nil
  have "foldl margin_step (Some m) [] = Some (take (length m) m)" by simp
  then show ?case by blast
next
  case (Cons x xs)
  obtain k where k: "margin_step (Some m) x = Some (take k m)"
    using margin_step_take by blast
  obtain k' where "foldl margin_step (Some (take k m)) xs = Some (take k' (take k m))"
    using Cons.IH by blast
  with k have "foldl margin_step (Some m) (x # xs) = Some (take (min k' k) m)"
    by simp
  then show ?case by blast
qed

lemma takeWhile_indent:
  assumes "list_all is_indent_char i" and "\<not> is_indent_char c"
  shows "takeWhile is_indent_char (i @ c # l) = i"
  using assms by (simp add: list_all_iff takeWhile_append2 takeWhile_tail)

lemma not_blank:
  assumes "\<not> is_indent_char c"
  shows "blank_whitespace_only (i @ c # l) = i @ c # l"
  using assms by (simp add: blank_whitespace_only_def)

lemma dedent_shape:
  assumes i: "list_all is_indent_char i"
      and b: "\<not> is_indent_char b" "b \<noteq> 10" "10 \<notin> set bs" "10 \<notin> set i"
      and c: "\<not> is_indent_char c" "c \<noteq> 10"
  shows "\<exists>i' w. list_all is_indent_char i'
           \<and> dedent (10 # i @ b # bs @ 10 # 10 # i @ c # r) = 10 # i' @ b # bs @ 10 # 10 # i' @ c # w"
proof -
  let ?t = "10 # i @ b # bs @ 10 # 10 # i @ c # r"
  obtain l ls where l: "py_split 10 ((i @ [c]) @ r) = ((i @ [c]) @ l) # ls"
    using py_split_first [of 10 "i @ [c]" r] b(4) c(2) by auto
  have "py_split 10 ((i @ b # bs) @ 10 # 10 # i @ c # r)
          = (i @ b # bs) # py_split 10 (10 # i @ c # r)"
    using b by (intro py_split_line) auto
  then have sp: "py_split 10 ?t = [[], i @ b # bs, [], i @ c # l] @ ls"
    using l by simp
  define lines where "lines = map blank_whitespace_only (py_split 10 ?t)"
  have lines: "lines = [] # (i @ b # bs) # [] # (i @ c # l) # map blank_whitespace_only ls"
    unfolding lines_def sp using not_blank [OF b(1)] not_blank [OF c(1)]
    by (simp add: blank_whitespace_only_def)
  define indents where
    "indents = map (takeWhile is_indent_char) (filter (\<lambda>l. l \<noteq> []) lines)"
  obtain xs where ind: "indents = i # xs"
    unfolding indents_def lines using takeWhile_indent [OF i b(1)] by simp
  obtain k where k: "foldl margin_step None indents = Some (take k i)"
    unfolding ind using foldl_margin_take [of i xs] by (auto simp: margin_step_def)
  define m where "m = take k i"
  have d: "dedent ?t =
      (if m = [] then py_join 10 lines
       else py_join 10 (map (\<lambda>l. if startswith l m then drop (length m) l else l) lines))"
    unfolding dedent_def Let_def m_def
    using k unfolding indents_def lines_def by simp
  show ?thesis
  proof (cases "m = []")
    case True
    obtain z where "py_join 10 ((i @ c # l) # map blank_whitespace_only ls) = (i @ c # l) @ z"
      using py_join_head by blast
    then have "dedent ?t = 10 # i @ b # bs @ 10 # 10 # i @ c # (l @ z)"
      unfolding d lines using True by simp
    with i show ?thesis by blast
  next
    case False
    let ?f = "\<lambda>l. if startswith l m then drop (length m) l else l"
    let ?i' = "drop (length m) i"
    have sw: "startswith (i @ x) m" for x
      by (simp add: startswith_def m_def min_def)
    have f1: "?f (i @ x) = ?i' @ x" for x
      using sw [of x] by (simp add: m_def)
    have f0: "?f [] = []" by simp
    obtain z where "py_join 10 ((?i' @ c # l) # map ?f (map blank_whitespace_only ls))
          = (?i' @ c # l) @ z"
      using py_join_head by blast
    then have "dedent ?t = 10 # ?i' @ b # bs @ 10 # 10 # ?i' @ c # (l @ z)"
      unfolding d lines using False f1 [of "b # bs"] f1 [of "c # l"] by simp
    moreover have "list_all is_indent_char ?i'"
      using i by (simp add: list_all_iff) (meson in_set_dropD)
    ultimately show ?thesis by blast
  qed
qed

lemma indent_is_space: "is_indent_char c \<Longrightarrow> py_isspace c"
  by (auto simp: is_indent_char_def py_isspace_def)

lemma py_strip_shape:
  assumes "list_all py_isspace pre" and "\<not> py_isspace b" and "\<not> py_isspace c"
  shows "\<exists>w. py_strip (pre @ b # mid @ c # r) = b # mid @ c # w"
proof -
  have 1: "dropWhile py_isspace (pre @ b # mid @ c # r) = b # mid @ c # r"
    using assms(1,2) by (simp add: list_all_iff dropWhile_append2)
  have 2: "rev (b # mid @ c # r) = rev r @ c # rev (b # mid)" by simp
  have "dropWhile py_isspace (rev r @ c # rev (b # mid))
      = dropWhile py_isspace (rev r) @ c # rev (b # mid)"
    using assms(3) by (rule dropWhile_append3)
  then have "dropWhile py_isspace (rev (b # mid @ c # r))
      = dropWhile py_isspace (rev r) @ c # rev (b # mid)"
    unfolding 2 .
  then have "py_strip (pre @ b # mid @ c # r)
      = b # mid @ c # rev (dropWhile py_isspace (rev r))"
    unfolding py_strip_def 1 by simp
  then show ?thesis by blast
qed

lemma str_nat_digits: "str_nat n \<noteq> [] \<and> (\<forall>d \<in> set (str_nat n). 48 \<le> d \<and> d \<le> 57)"
proof (induction n rule: str_nat.induct)
  case (1 n)
  show ?case
  proof (cases "n < 10")
    case True
    then show ?thesis by (simp add: str_nat.simps [of n])
  next
    case False
    with 1 have "\<forall>d \<in> set (str_nat (n div 10)). 48 \<le> d \<and> d \<le> 57" by simp
    moreover have "n mod 10 \<le> 9" by simp
    ultimately show ?thesis using False
      by (subst (1 2) str_nat.simps) (auto simp del: One_nat_def simp add: le_imp_less_Suc)
  qed
qed

lemma digest_message_rank_line:
  "\<exists>rest. digest_message rank r s = rank_line rank @ rest"
proof -
  let ?i = "[32, 32, 32, 32, 32, 32, 32, 32] :: pystr"
  let ?bs = "[32, 12521, 12531, 12463, 32] @ str_nat rank"
  let ?name = "full_name r" and ?stars = "stargazers_count r" and ?url = "html_url r"
  let ?desc = "case description r of None \<Rightarrow> [] | Some d \<Rightarrow> d"
  let ?r = "[32, 42, 42] @ ?name @ t_stars @ str_int ?stars @ t_url @ ?url @ t_desc @ ?desc
             @ t_summary @ s @ t_end"
  have t: "message_template rank ?name ?stars ?url ?desc s
             = 10 # ?i @ 127941 # ?bs @ 10 # 10 # ?i @ 128216 # ?r"
    by (simp add: message_template_def t_rank_def t_name_def)
  have dig: "10 \<notin> set (str_nat rank)" using str_nat_digits [of rank] by auto
  have "\<exists>i' w. list_all is_indent_char i'
           \<and> dedent (10 # ?i @ 127941 # ?bs @ 10 # 10 # ?i @ 128216 # ?r)
               = 10 # i' @ 127941 # ?bs @ 10 # 10 # i' @ 128216 # w"
    using dig by (intro dedent_shape) (simp_all add: is_indent_char_def)
  then obtain i' w where i': "list_all is_indent_char i'"
    and d: "dedent (message_template rank ?name ?stars ?url ?desc s)
               = 10 # i' @ 127941 # ?bs @ 10 # 10 # i' @ 128216 # w"
    unfolding t by blast
  have sp: "list_all py_isspace (10 # i')"
    using i' by (auto simp: list_all_iff indent_is_space) (simp add: py_isspace_def)
  have "\<exists>w'. py_strip ((10 # i') @ 127941 # (?bs @ 10 # 10 # i') @ 128216 # w)
           = 127941 # (?bs @ 10 # 10 # i') @ 128216 # w'"
    using sp by (intro py_strip_shape) (simp_all add: py_isspace_def)
  then obtain w' where "py_strip (dedent (message_template rank ?name ?stars ?url ?desc s))
           = 127941 # (?bs @ 10 # 10 # i') @ 128216 # w'"
    unfolding d by auto
  then have "digest_message rank r s = rank_line rank @ (10 # i' @ 128216 # w')"
    by (simp add: digest_message_def rank_line_def)
  then show ?thesis by blast
qed

lemma rank_line_length: "rank < 10 \<Longrightarrow> length (rank_line rank) = 8"
  by (simp add: rank_line_def str_nat.simps [of rank])

lemma content_rank_line:
  assumes "rank < 10"
  shows "take 8 (discord_content (digest_message rank r s)) = rank_line rank"
proof -
  obtain rest where d: "digest_message rank r s = rank_line rank @ rest"
    using digest_message_rank_line by blast
  have l: "length (rank_line rank) = 8" using assms by (rule rank_line_length)
  have a: "take 8 (rank_line rank @ rest) = rank_line rank" using l by simp
  show ?thesis
  proof (cases "1900 < length (rank_line rank @ rest)")
    case True
    then have "take 8 (take 1900 (rank_line rank @ rest) @ discord_cut_marker)
        = take 8 (take 1900 (rank_line rank @ rest))" by simp
    also have "\<dots> = rank_line rank" using a by (simp add: take_take del: take_append)
    finally show ?thesis using True unfolding discord_content_def d by simp
  next
    case False
    then show ?thesis using a unfolding discord_content_def d by simp
  qed
qed


section \<open>The whole run\<close>

lemma pipeline_ok:
  assumes "search_repos w query pp = (Inr repos, es0)"
  shows "pipeline w pp n =
           (fst (for_each_candidate w (enumerate 1 (take n repos))),
            es0 @ snd (for_each_candidate w (enumerate 1 (take n repos))))"
  using assms by (simp add: pipeline_def split: prod.splits)

lemma pipeline_failed_search:
  assumes "search_repos w query pp = (Inl e, es0)"
  shows "pipeline w pp n = (Inl e, es0)"
  using assms by (simp add: pipeline_def)

lemma search_posted: "posted (snd (search_repos w q pp)) = []"
  by (simp add: search_repos_events)

lemma pipeline_contents:
  "\<exists>rest. expected_contents w (enumerate 1 (take n (candidates w pp)))
            = map content (posted (snd (pipeline w pp n))) @ rest
          \<and> (fst (pipeline w pp n) = Inr () \<longrightarrow> rest = [])"
proof -
  obtain res es0 where s: "search_repos w query pp = (res, es0)"
    by (cases "search_repos w query pp")
  have p0: "posted es0 = []" using search_posted [of w query pp] s by simp
  show ?thesis
  proof (cases res)
    case (Inl e)
    with s have "pipeline w pp n = (Inl e, es0)" by (simp add: pipeline_failed_search)
    with p0 show ?thesis by simp
  next
    case (Inr repos)
    with s have c: "candidates w pp = repos" by (simp add: candidates_def)
    from s Inr have "pipeline w pp n =
           (fst (for_each_candidate w (enumerate 1 (take n repos))),
            es0 @ snd (for_each_candidate w (enumerate 1 (take n repos))))"
      by (simp add: pipeline_ok)
    then show ?thesis
      using for_each_contents [of w "enumerate 1 (take n repos)"] p0
      by (simp add: c posted_append)
  qed
qed

lemma usable_has_documentation: "usable_readme w r \<noteq> [] \<Longrightarrow> has_documentation w r"
  by (auto simp: usable_readme_def has_documentation_def split: prod.splits sum.splits option.splits)

lemma length_expected_contents:
  "length (expected_contents w (enumerate k xs)) \<le> length (filter (has_documentation w) xs)"
proof -
  have "length (expected_contents w (enumerate k xs))
          = length (filter (\<lambda>r. usable_readme w r \<noteq> []) (map snd (enumerate k xs)))"
    unfolding expected_contents_def length_map filter_map comp_def ..
  also have "\<dots> = length (filter (\<lambda>r. usable_readme w r \<noteq> []) xs)"
    by (simp add: enumerate_eq_zip)
  also have "\<dots> \<le> length (filter (has_documentation w) xs)"
    by (induction xs) (auto simp: usable_has_documentation)
  finally show ?thesis .
qed

lemma length_filter_take: "length (filter P (take n xs)) \<le> length (filter P xs)"
proof -
  have "filter P xs = filter P (take n xs) @ filter P (drop n xs)"
    by (metis append_take_drop_id filter_append)
  then show ?thesis by simp
qed

text \<open>
  Claim C6. In one run the number of delivery attempts (requests to the webhook) is at
  most \<open>TOP_N\<close>, and at most the number of candidates whose documentation is not
  absent. This holds for every page size and every \<open>TOP_N\<close>, so in particular for
  a positive page size and \<open>TOP_N\<close> not above it.
\<close>

theorem delivery_attempts_bounded:
  "length (posted (snd (pipeline w per_page top_n))) \<le> top_n
   \<and> length (posted (snd (pipeline w per_page top_n)))
       \<le> length (filter (has_documentation w) (candidates w per_page))"
proof -
  let ?xs = "take top_n (candidates w per_page)"
  obtain rest where
    "expected_contents w (enumerate 1 ?xs)
       = map content (posted (snd (pipeline w per_page top_n))) @ rest"
    using pipeline_contents by blast
  then have "length (expected_contents w (enumerate 1 ?xs))
       = length (posted (snd (pipeline w per_page top_n))) + length rest"
    by (metis length_append length_map)
  then have le: "length (posted (snd (pipeline w per_page top_n)))
       \<le> length (expected_contents w (enumerate 1 ?xs))" by simp
  have a: "length (expected_contents w (enumerate 1 ?xs)) \<le> length (filter (has_documentation w) ?xs)"
    by (rule length_expected_contents)
  have "length (filter (has_documentation w) ?xs) \<le> length ?xs" by (rule length_filter_le)
  also have "\<dots> \<le> top_n" by simp
  finally have b: "length (filter (has_documentation w) ?xs) \<le> top_n" .
  have c: "length (filter (has_documentation w) ?xs)
        \<le> length (filter (has_documentation w) (candidates w per_page))"
    by (rule length_filter_take)
  from le a b c show ?thesis by linarith
qed

text \<open>
  Claim C2, as amended. In every run, whether or not an exception ends it, the delivered
  contents are, in order, the messages of the first candidates of the top-N slice whose
  README is not empty, each composed with the rank the loop gave it: its 1-based
  position in the slice, which is what the first line of the delivered content shows.
  A skipped candidate keeps its position, so the ranks delivered need not be
  contiguous. When no exception ends the run, every such candidate is delivered.
\<close>

theorem ranks_are_slice_positions:
  "map content (posted (snd (main w)))
     = take (length (posted (snd (main w))))
         (expected_contents w (enumerate 1 (take TOP_N (candidates w 5))))
   \<and> map (\<lambda>p. take 8 (content p)) (posted (snd (main w)))
     = take (length (posted (snd (main w))))
         (map (\<lambda>c. rank_line (fst c))
            (filter (\<lambda>c. usable_readme w (snd c) \<noteq> [])
               (enumerate 1 (take TOP_N (candidates w 5)))))
   \<and> map fst (enumerate 1 (take TOP_N (candidates w 5)))
     = [1 ..< 1 + length (take TOP_N (candidates w 5))]
   \<and> (fst (main w) = Inr () \<longrightarrow>
        length (posted (snd (main w)))
          = length (filter (\<lambda>c. usable_readme w (snd c) \<noteq> [])
                      (enumerate 1 (take TOP_N (candidates w 5)))))"
proof -
  let ?cs = "enumerate 1 (take TOP_N (candidates w 5))"
  let ?d = "posted (snd (main w))"
  let ?f = "filter (\<lambda>c. usable_readme w (snd c) \<noteq> []) ?cs"
  obtain rest where
    r: "expected_contents w ?cs = map content ?d @ rest"
       "fst (main w) = Inr () \<longrightarrow> rest = []"
    using pipeline_contents [of w TOP_N 5] unfolding main_def by blast
  have 1: "map content ?d = take (length ?d) (expected_contents w ?cs)"
    unfolding r(1) by simp
  have small: "fst c < 10" if "c \<in> set ?cs" for c
  proof -
    from that have "fst c < length (take TOP_N (candidates w 5)) + 1"
      by (simp add: in_set_enumerate_eq)
    then show ?thesis by (simp add: TOP_N_def)
  qed
  have e: "map (take 8) (expected_contents w ?cs) = map (\<lambda>c. rank_line (fst c)) ?f"
    unfolding expected_contents_def using small
    by (simp add: content_rank_line)
  have "map (take 8) (map content ?d) = take (length ?d) (map (take 8) (expected_contents w ?cs))"
    unfolding take_map using 1 by simp
  then have 2: "map (\<lambda>p. take 8 (content p)) ?d
                  = take (length ?d) (map (\<lambda>c. rank_line (fst c)) ?f)"
    unfolding e by (simp add: comp_def)
  have 3: "map fst ?cs = [1 ..< 1 + length (take TOP_N (candidates w 5))]"
    by (rule map_fst_enumerate)
  have l: "length (expected_contents w ?cs) = length ?f"
    by (simp add: expected_contents_def)
  have 4: "fst (main w) = Inr () \<longrightarrow> length ?d = length ?f"
  proof
    assume "fst (main w) = Inr ()"
    with r have "expected_contents w ?cs = map content ?d" by simp
    then have "length (expected_contents w ?cs) = length ?d" by simp
    with l show "length ?d = length ?f" by simp
  qed
  from 1 2 3 4 show ?thesis by blast
qed

text \<open>
  Claim C1, as amended. Nothing in \<open>main\<close> catches an exception: when one leaves the
  body of the loop for a candidate (raised while summarising, composing or delivering,
  or by the fetch), the run ends with that exception. The calls made are the search,
  those of the candidates before, and those of the failing candidate up to the
  exception; no later candidate is processed.
\<close>

theorem stage_exception_ends_run:
  assumes "search_repos w query 5 = (Inr repos, es0)"
      and "enumerate 1 (take TOP_N repos) = before @ c # after"
      and "for_each_candidate w before = (Inr (), es1)"
      and "candidate_body w c = (Inl e, es2)"
  shows "main w = (Inl e, es0 @ es1 @ es2)"
  using assms for_each_raise [of w before es1 c e es2 after]
  by (simp add: main_def pipeline_ok)

text \<open>
  When the documentation provider answers the README request with an error status (400
  to 599, "not found" included), \<open>fetch_readme\<close> returns \<open>None\<close> and raises nothing,
  the candidate is skipped after that one request, and the loop goes on with the
  candidates that follow.
\<close>

lemma fetch_error_is_skip:
  assumes "py_split 47 (full_name r) = [owner, name]"
      and "requests_get w (readme_url owner name) [] True = Response resp"
      and "is_error_status (status_code resp)"
  shows "fetch_readme w owner name = (Inr None, [Get_request (readme_url owner name) [] True])
       \<and> candidate_body w (rank, r) = (Inr (), [Get_request (readme_url owner name) [] True])
       \<and> for_each_candidate w ((rank, r) # cs) =
           (fst (for_each_candidate w cs),
            Get_request (readme_url owner name) [] True # snd (for_each_candidate w cs))"
proof -
  from assms(2,3) have g: "github_response w (readme_path owner name) [] True =
      (Inl (HTTPError (status_code resp)), [Get_request (readme_url owner name) [] True])"
    using github_response_error [of w "readme_path owner name" "[]" True resp]
    by (simp add: readme_url_def)
  then have f: "fetch_readme w owner name =
      (Inr None, [Get_request (readme_url owner name) [] True])"
    by (simp add: fetch_readme_def github_request_raw_def)
  with assms(1) have "fetch_readme_of w (full_name r) =
      (Inr None, [Get_request (readme_url owner name) [] True])"
    by (simp add: fetch_readme_of_def)
  then have b: "candidate_body w (rank, r) =
      (Inr (), [Get_request (readme_url owner name) [] True])"
    by (simp add: candidate_body_skip)
  then have "for_each_candidate w ((rank, r) # cs) =
           (fst (for_each_candidate w cs),
            Get_request (readme_url owner name) [] True # snd (for_each_candidate w cs))"
    by (simp split: prod.splits)
  with f b show ?thesis by blast
qed

text \<open>
  Claim C5, as amended. When the fetch returns a text, the candidate is skipped exactly
  when the text is empty: an empty README ends the body after the fetch, like an absent
  one; a non-empty README is sent to the generative service in one prompt, and when the
  summary comes back the message composed from it is posted.
\<close>

theorem empty_readme_is_skip:
  assumes "fetch_readme_of w (full_name r) = (Inr (Some t), es)"
  shows "(t = [] \<longrightarrow> candidate_body w (rank, r) = (Inr (), es))
       \<and> (t \<noteq> [] \<longrightarrow>
            prompts (snd (candidate_body w (rank, r))) =
              [gemini_prompt (full_name r)
                 (if max_chars < length t then take max_chars t @ readme_cut_marker else t)]
          \<and> (\<forall>s es2. summarize_with_gemini w (full_name r) t = (Inr s, es2) \<longrightarrow>
                posted (snd (candidate_body w (rank, r))) =
                  [\<lparr>content = discord_content (digest_message rank r s),
                    username = discord_username\<rparr>]))"
proof -
  have pe: "prompts es = []" "posted es = []"
    using fetch_readme_of_prompts [of w "full_name r"] fetch_readme_of_posted [of w "full_name r"]
      assms by simp_all
  have 1: "t = [] \<longrightarrow> candidate_body w (rank, r) = (Inr (), es)"
    using assms by (simp add: candidate_body_skip)
  have 2: "prompts (snd (candidate_body w (rank, r))) =
              [gemini_prompt (full_name r)
                 (if max_chars < length t then take max_chars t @ readme_cut_marker else t)]"
    if t: "t \<noteq> []"
  proof -
    obtain sres es2 where sm: "summarize_with_gemini w (full_name r) t = (sres, es2)"
      by (cases "summarize_with_gemini w (full_name r) t")
    then have es2: "es2 = [Generate_request (gemini_prompt (full_name r)
                 (if max_chars < length t then take max_chars t @ readme_cut_marker else t))]"
      using summarize_events [of w "full_name r" t] by simp
    show ?thesis
      unfolding candidate_body_go [OF assms t] sm
      by (cases sres) (simp_all add: prompts_append pe es2 send_to_discord_events)
  qed
  have 3: "posted (snd (candidate_body w (rank, r))) =
                  [\<lparr>content = discord_content (digest_message rank r s),
                    username = discord_username\<rparr>]"
    if t: "t \<noteq> []" and sm: "summarize_with_gemini w (full_name r) t = (Inr s, es2)" for s es2
  proof -
    have "posted es2 = []" using summarize_events [of w "full_name r" t] sm by simp
    then show ?thesis
      unfolding candidate_body_go [OF assms t] sm
      by (simp add: posted_append pe send_to_discord_events)
  qed
  from 1 2 3 show ?thesis by blast
qed

text \<open>
  An error status (400 to 599) on the search does end the run: one request, no retry,
  no candidate processed, \<open>HTTPError\<close> surfaced.
\<close>

lemma search_error_status_aborts:
  assumes "requests_get w search_url (search_params query pp) False = Response resp"
      and "is_error_status (status_code resp)"
  shows "pipeline w pp n =
           (Inl (HTTPError (status_code resp)),
            [Get_request search_url (search_params query pp) False])"
proof -
  from assms have "github_response w (ascii ''/search/repositories'') (search_params query pp) False
      = (Inl (HTTPError (status_code resp)),
         [Get_request search_url (search_params query pp) False])"
    using github_response_error [of w "ascii ''/search/repositories''" "search_params query pp" False resp]
    by (simp add: search_url_def)
  then have "search_repos w query pp = (Inl (HTTPError (status_code resp)),
         [Get_request search_url (search_params query pp) False])"
    by (simp add: search_repos_def github_request_json_def)
  then show ?thesis by (rule pipeline_failed_search)
qed



section \<open>The example runs\<close>

lemma example_body_a:
  "candidate_body (example_world found (text_response 200 (ascii ''doc'')) gen_a) (rank, repo_a) =
     (case gen_a of
        Generation_raises \<Rightarrow>
          (Inl GenerationError,
           [Get_request (readme_url (ascii ''a'') (ascii ''x'')) [] True,
            Generate_request (gemini_prompt (ascii ''a/x'') (ascii ''doc''))])
      | Generated t \<Rightarrow>
          (Inr (),
           [Get_request (readme_url (ascii ''a'') (ascii ''x'')) [] True,
            Generate_request (gemini_prompt (ascii ''a/x'') (ascii ''doc'')),
            Post_request \<lparr>content = discord_content (digest_message rank repo_a
                               (py_strip (case t of None \<Rightarrow> [] | Some s \<Rightarrow> s))),
                           username = discord_username\<rparr>]))"
proof -
  have n: "full_name repo_a = ascii ''a/x''" by (simp add: repo_a_def)
  have d: "ascii ''doc'' \<noteq> []" by (simp add: ascii_def)
  have e: "\<not> is_error_status 200" by (simp add: is_error_status_def)
  show ?thesis
    by (simp add: candidate_body_def n example_fetch_a e d example_summarize_a example_send
          split: gen_outcome.split)
qed

lemma example_body_a_skipped:
  assumes "is_error_status s \<or> t = []"
  shows "candidate_body (example_world found (text_response s t) gen_a) (rank, repo_a) =
     (Inr (), [Get_request (readme_url (ascii ''a'') (ascii ''x'')) [] True])"
proof -
  have n: "full_name repo_a = ascii ''a/x''" by (simp add: repo_a_def)
  show ?thesis using assms
    by (auto simp: candidate_body_def n example_fetch_a)
qed

lemma e200: "\<not> is_error_status 200"
  by (simp add: is_error_status_def)

lemma e300: "\<not> is_error_status 300"
  by (simp add: is_error_status_def)

lemma e404: "is_error_status 404"
  by (simp add: is_error_status_def)

lemma e503: "is_error_status 503"
  by (simp add: is_error_status_def)

lemma main_all_good:
  "main world_all_good =
     (Inr (),
      [Get_request search_url (search_params query 5) False,
       Get_request (readme_url (ascii ''a'') (ascii ''x'')) [] True,
       Generate_request (gemini_prompt (ascii ''a/x'') (ascii ''doc'')),
       Post_request \<lparr>content = discord_content (digest_message 1 repo_a (ascii ''S1'')),
                      username = discord_username\<rparr>,
       Get_request (readme_url (ascii ''b'') (ascii ''y'')) [] True,
       Generate_request (gemini_prompt (ascii ''b/y'') (ascii ''doc'')),
       Post_request \<lparr>content = discord_content (digest_message 2 repo_b (ascii ''S2'')),
                      username = discord_username\<rparr>])"
  unfolding main_def pipeline_def world_all_good_def example_search [OF e200] prod.case sum.case
    example_slice
  by (simp add: example_body_a example_body_b strip_S1 del: One_nat_def)

lemma main_generation_fails:
  "main world_generation_fails =
     (Inl GenerationError,
      [Get_request search_url (search_params query 5) False,
       Get_request (readme_url (ascii ''a'') (ascii ''x'')) [] True,
       Generate_request (gemini_prompt (ascii ''a/x'') (ascii ''doc''))])"
  unfolding main_def pipeline_def world_generation_fails_def example_search [OF e200] prod.case sum.case
    example_slice
  by (simp add: example_body_a example_body_b del: One_nat_def)

lemma main_readme_missing:
  "main world_readme_missing =
     (Inr (),
      [Get_request search_url (search_params query 5) False,
       Get_request (readme_url (ascii ''a'') (ascii ''x'')) [] True,
       Get_request (readme_url (ascii ''b'') (ascii ''y'')) [] True,
       Generate_request (gemini_prompt (ascii ''b/y'') (ascii ''doc'')),
       Post_request \<lparr>content = digest_message 2 repo_b (ascii ''S2''),
                      username = discord_username\<rparr>])"
  unfolding main_def pipeline_def world_readme_missing_def example_search [OF e200] prod.case sum.case
    example_slice
  by (simp add: example_body_a_skipped e404 example_body_b content_b del: One_nat_def)

lemma main_readme_empty:
  "main world_readme_empty =
     (Inr (),
      [Get_request search_url (search_params query 5) False,
       Get_request (readme_url (ascii ''a'') (ascii ''x'')) [] True,
       Get_request (readme_url (ascii ''b'') (ascii ''y'')) [] True,
       Generate_request (gemini_prompt (ascii ''b/y'') (ascii ''doc'')),
       Post_request \<lparr>content = digest_message 2 repo_b (ascii ''S2''),
                      username = discord_username\<rparr>])"
  unfolding main_def pipeline_def world_readme_empty_def example_search [OF e200] prod.case sum.case
    example_slice
  by (simp add: example_body_a_skipped example_body_b content_b del: One_nat_def)

lemma main_search_300:
  "main world_search_300 =
     (Inr (),
      [Get_request search_url (search_params query 5) False,
       Get_request (readme_url (ascii ''b'') (ascii ''y'')) [] True,
       Generate_request (gemini_prompt (ascii ''b/y'') (ascii ''doc'')),
       Post_request \<lparr>content = digest_message 1 repo_b (ascii ''S2''),
                      username = discord_username\<rparr>])"
  unfolding main_def pipeline_def world_search_300_def example_search [OF e300] prod.case sum.case
    example_slice
  by (simp add: example_body_b content_b del: One_nat_def)


lemma main_search_503:
  "main world_search_503 =
     (Inl (HTTPError 503), [Get_request search_url (search_params query 5) False])"
proof -
  let ?resp = "\<lparr>status_code = 503, body_text = ascii ''Service Unavailable'',
                 body_json = None\<rparr>"
  have g: "requests_get world_search_503 search_url (search_params query 5) False
             = Response ?resp"
    by (simp add: world_search_503_def example_get text_response_def)
  have "is_error_status (status_code ?resp)" by (simp add: e503)
  from search_error_status_aborts [OF g this] show ?thesis by (simp add: main_def)
qed

lemma example_candidates:
  assumes "\<not> is_error_status s"
  shows "candidates (example_world (items_response s items) readme_a gen_a) pp = items"
  using assms by (simp add: candidates_def example_search)

text \<open>
  Claim C1 as stated fails: with two candidates, the generative call raising for the
  first and succeeding for the second, the run ends with the exception and nothing is
  posted, although the second candidate processed alone is delivered.
\<close>

theorem generation_failure_not_isolated:
  "fst (main world_generation_fails) = Inl GenerationError
   \<and> posted (snd (main world_generation_fails)) = []
   \<and> candidate_body world_generation_fails (2, repo_b) =
       (Inr (),
        [Get_request (readme_url (ascii ''b'') (ascii ''y'')) [] True,
         Generate_request (gemini_prompt (ascii ''b/y'') (ascii ''doc'')),
         Post_request \<lparr>content = digest_message 2 repo_b (ascii ''S2''),
                        username = discord_username\<rparr>])"
  unfolding main_generation_fails
  by (simp add: world_generation_fails_def example_body_b content_b)

theorem stage_exception_ends_run_witness:
  "search_repos world_generation_fails query 5 =
     (Inr [repo_a, repo_b], [Get_request search_url (search_params query 5) False])
   \<and> enumerate 1 (take TOP_N [repo_a, repo_b]) = [] @ (1, repo_a) # [(2, repo_b)]
   \<and> for_each_candidate world_generation_fails [] = (Inr (), [])
   \<and> candidate_body world_generation_fails (1, repo_a) =
       (Inl GenerationError,
        [Get_request (readme_url (ascii ''a'') (ascii ''x'')) [] True,
         Generate_request (gemini_prompt (ascii ''a/x'') (ascii ''doc''))])
   \<and> main world_generation_fails =
       (Inl GenerationError,
        [Get_request search_url (search_params query 5) False] @ []
        @ [Get_request (readme_url (ascii ''a'') (ascii ''x'')) [] True,
           Generate_request (gemini_prompt (ascii ''a/x'') (ascii ''doc''))])"
proof -
  have 1: "search_repos world_generation_fails query 5 =
     (Inr [repo_a, repo_b], [Get_request search_url (search_params query 5) False])"
    by (simp add: world_generation_fails_def example_search e200)
  have 2: "enumerate 1 (take TOP_N [repo_a, repo_b]) = [] @ (1, repo_a) # [(2, repo_b)]"
    by (simp add: example_slice del: One_nat_def)
  have 3: "for_each_candidate world_generation_fails [] = (Inr (), [])" by simp
  have 4: "candidate_body world_generation_fails (1, repo_a) =
       (Inl GenerationError,
        [Get_request (readme_url (ascii ''a'') (ascii ''x'')) [] True,
         Generate_request (gemini_prompt (ascii ''a/x'') (ascii ''doc''))])"
    by (simp add: world_generation_fails_def example_body_a)
  from 1 2 3 4 stage_exception_ends_run [OF 1 2 3 4] show ?thesis by blast
qed

lemma readme_missing_facts:
  "candidates world_readme_missing 5 = [repo_a, repo_b]"
  "\<not> has_documentation world_readme_missing repo_a"
  "has_documentation world_readme_missing repo_b"
  "usable_readme world_readme_missing repo_b = ascii ''doc''"
  "summary_of world_readme_missing repo_b = ascii ''S2''"
proof -
  have na: "full_name repo_a = ascii ''a/x''" and nb: "full_name repo_b = ascii ''b/y''"
    by (simp_all add: repo_a_def repo_b_def)
  show "candidates world_readme_missing 5 = [repo_a, repo_b]"
    by (simp add: world_readme_missing_def example_candidates e200)
  show "\<not> has_documentation world_readme_missing repo_a"
    by (simp add: has_documentation_def world_readme_missing_def na example_fetch_a e404)
  show "has_documentation world_readme_missing repo_b"
    by (simp add: has_documentation_def world_readme_missing_def nb example_fetch_b)
  show u: "usable_readme world_readme_missing repo_b = ascii ''doc''"
    by (simp add: usable_readme_def world_readme_missing_def nb example_fetch_b)
  show "summary_of world_readme_missing repo_b = ascii ''S2''"
    unfolding summary_of_def u nb
    by (simp add: world_readme_missing_def example_summarize_b)
qed

lemma renumbered_readme_missing:
  "renumbered_contents world_readme_missing (candidates world_readme_missing 5)
     = [digest_message 1 repo_b (ascii ''S2'')]"
proof -
  have d: "ascii ''doc'' \<noteq> []" by (simp add: ascii_def)
  have "enumerate 1 (filter (has_documentation world_readme_missing) [repo_a, repo_b])
          = [(1, repo_b)]"
    by (simp add: readme_missing_facts del: One_nat_def)
  then show ?thesis
    unfolding renumbered_contents_def readme_missing_facts(1)
    by (simp add: expected_contents_def readme_missing_facts d content_b del: One_nat_def)
qed

text \<open>
  Claim C2 as stated fails: when the first of two candidates has no README, the one
  message delivered announces rank 2, where numbering over the candidates with
  documentation would announce rank 1.
\<close>

theorem ranks_not_renumbered:
  "map content (posted (snd (main world_readme_missing)))
     = [digest_message 2 repo_b (ascii ''S2'')]
   \<and> renumbered_contents world_readme_missing (candidates world_readme_missing 5)
     = [digest_message 1 repo_b (ascii ''S2'')]
   \<and> take 8 (digest_message 2 repo_b (ascii ''S2'')) = rank_line 2
   \<and> take 8 (digest_message 1 repo_b (ascii ''S2'')) = rank_line 1
   \<and> map content (posted (snd (main world_readme_missing)))
     \<noteq> renumbered_contents world_readme_missing (candidates world_readme_missing 5)"
  unfolding main_readme_missing renumbered_readme_missing digest_b1 digest_b2 rank_line_values
  by simp

lemma second_fails_facts:
  "candidates world_second_fails 5 = [repo_b, repo_a]"
  "main world_second_fails =
     (Inl GenerationError,
      [Get_request search_url (search_params query 5) False,
       Get_request (readme_url (ascii ''b'') (ascii ''y'')) [] True,
       Generate_request (gemini_prompt (ascii ''b/y'') (ascii ''doc'')),
       Post_request \<lparr>content = digest_message 1 repo_b (ascii ''S2''),
                      username = discord_username\<rparr>,
       Get_request (readme_url (ascii ''a'') (ascii ''x'')) [] True,
       Generate_request (gemini_prompt (ascii ''a/x'') (ascii ''doc''))])"
proof -
  show "candidates world_second_fails 5 = [repo_b, repo_a]"
    by (simp add: world_second_fails_def example_candidates e200)
  have sl: "enumerate 1 (take TOP_N [repo_b, repo_a]) = [(1, repo_b), (2, repo_a)]"
    by (simp add: TOP_N_def)
  show "main world_second_fails =
     (Inl GenerationError,
      [Get_request search_url (search_params query 5) False,
       Get_request (readme_url (ascii ''b'') (ascii ''y'')) [] True,
       Generate_request (gemini_prompt (ascii ''b/y'') (ascii ''doc'')),
       Post_request \<lparr>content = digest_message 1 repo_b (ascii ''S2''),
                      username = discord_username\<rparr>,
       Get_request (readme_url (ascii ''a'') (ascii ''x'')) [] True,
       Generate_request (gemini_prompt (ascii ''a/x'') (ascii ''doc''))])"
    unfolding main_def pipeline_def world_second_fails_def example_search [OF e200]
      prod.case sum.case sl
    by (simp add: example_body_a example_body_b content_b del: One_nat_def)
qed

theorem ranks_are_slice_positions_witness:
  "fst (main world_readme_missing) = Inr ()
   \<and> map (\<lambda>p. take 8 (content p)) (posted (snd (main world_readme_missing))) = [rank_line 2]
   \<and> length (filter (\<lambda>c. usable_readme world_readme_missing (snd c) \<noteq> [])
               (enumerate 1 (take TOP_N (candidates world_readme_missing 5)))) = 1
   \<and> map fst (enumerate 1 (take TOP_N (candidates world_readme_missing 5))) = [1, 2]
   \<and> fst (main world_second_fails) = Inl GenerationError
   \<and> map (\<lambda>p. take 8 (content p)) (posted (snd (main world_second_fails))) = [rank_line 1]
   \<and> take 1 (expected_contents world_second_fails
                (enumerate 1 (take TOP_N (candidates world_second_fails 5))))
      = [digest_message 1 repo_b (ascii ''S2'')]"
proof -
  note t = ranks_are_slice_positions [of world_readme_missing]
  note u = ranks_are_slice_positions [of world_second_fails]
  have m: "fst (main world_readme_missing) = Inr ()"
    by (simp add: main_readme_missing)
  have dm: "length (posted (snd (main world_readme_missing))) = 1"
    by (simp add: main_readme_missing)
  have q: "map (\<lambda>p. take 8 (content p)) (posted (snd (main world_readme_missing)))
             = [rank_line 2]"
    unfolding main_readme_missing digest_b2 rank_line_values by simp
  have l: "[1 ..< 1 + length (take TOP_N (candidates world_readme_missing 5))] = [1, 2::nat]"
    unfolding readme_missing_facts(1) by (simp add: TOP_N_def upt_rec)
  have f: "fst (main world_second_fails) = Inl GenerationError"
    by (simp add: second_fails_facts)
  have ds: "map content (posted (snd (main world_second_fails)))
              = [digest_message 1 repo_b (ascii ''S2'')]"
      "length (posted (snd (main world_second_fails))) = 1"
    by (simp_all add: second_fails_facts)
  have q2: "map (\<lambda>p. take 8 (content p)) (posted (snd (main world_second_fails)))
             = [rank_line 1]"
    unfolding second_fails_facts digest_b1 rank_line_values by simp
  from t m dm have a: "length (filter (\<lambda>c. usable_readme world_readme_missing (snd c) \<noteq> [])
               (enumerate 1 (take TOP_N (candidates world_readme_missing 5)))) = 1"
    by simp
  from t l have b: "map fst (enumerate 1 (take TOP_N (candidates world_readme_missing 5)))
      = [1, 2]" by simp
  from u ds have c: "take 1 (expected_contents world_second_fails
                (enumerate 1 (take TOP_N (candidates world_second_fails 5))))
      = [digest_message 1 repo_b (ascii ''S2'')]"
    by simp
  from m q a b f q2 c show ?thesis by blast
qed

text \<open>
  Claim C5 as stated fails: the first candidate's fetch succeeds with the empty text, so
  its documentation is not absent, and the body ends after the fetch; the only prompt
  and the only message of the run are the second candidate's.
\<close>

theorem empty_readme_not_summarized:
  "fetch_readme_of world_readme_empty (full_name repo_a) =
     (Inr (Some []), [Get_request (readme_url (ascii ''a'') (ascii ''x'')) [] True])
   \<and> has_documentation world_readme_empty repo_a
   \<and> candidate_body world_readme_empty (1, repo_a) =
       (Inr (), [Get_request (readme_url (ascii ''a'') (ascii ''x'')) [] True])
   \<and> prompts (snd (main world_readme_empty)) = [gemini_prompt (ascii ''b/y'') (ascii ''doc'')]
   \<and> map content (posted (snd (main world_readme_empty)))
       = [digest_message 2 repo_b (ascii ''S2'')]"
proof -
  have na: "full_name repo_a = ascii ''a/x''" by (simp add: repo_a_def)
  have f: "fetch_readme_of world_readme_empty (full_name repo_a) =
     (Inr (Some []), [Get_request (readme_url (ascii ''a'') (ascii ''x'')) [] True])"
    by (simp add: na world_readme_empty_def example_fetch_a e200)
  then have h: "has_documentation world_readme_empty repo_a"
    by (simp add: has_documentation_def)
  have b: "candidate_body world_readme_empty (1, repo_a) =
       (Inr (), [Get_request (readme_url (ascii ''a'') (ascii ''x'')) [] True])"
    by (simp add: world_readme_empty_def example_body_a_skipped)
  have "prompts (snd (main world_readme_empty)) = [gemini_prompt (ascii ''b/y'') (ascii ''doc'')]"
    "map content (posted (snd (main world_readme_empty)))
       = [digest_message 2 repo_b (ascii ''S2'')]"
    by (simp_all add: main_readme_empty)
  with f h b show ?thesis by blast
qed

theorem empty_readme_is_skip_witness:
  "fetch_readme_of world_readme_empty (full_name repo_a) =
     (Inr (Some []), [Get_request (readme_url (ascii ''a'') (ascii ''x'')) [] True])
   \<and> candidate_body world_readme_empty (1, repo_a) =
       (Inr (), [Get_request (readme_url (ascii ''a'') (ascii ''x'')) [] True])
   \<and> fetch_readme_of world_all_good (full_name repo_a) =
       (Inr (Some (ascii ''doc'')), [Get_request (readme_url (ascii ''a'') (ascii ''x'')) [] True])
   \<and> ascii ''doc'' \<noteq> []
   \<and> summarize_with_gemini world_all_good (full_name repo_a) (ascii ''doc'') =
       (Inr (ascii ''S1''), [Generate_request (gemini_prompt (ascii ''a/x'') (ascii ''doc''))])
   \<and> prompts (snd (candidate_body world_all_good (1, repo_a))) =
       [gemini_prompt (ascii ''a/x'') (ascii ''doc'')]
   \<and> posted (snd (candidate_body world_all_good (1, repo_a))) =
       [\<lparr>content = discord_content (digest_message 1 repo_a (ascii ''S1'')),
         username = discord_username\<rparr>]"
proof -
  have na: "full_name repo_a = ascii ''a/x''" by (simp add: repo_a_def)
  have d: "ascii ''doc'' \<noteq> []" by (simp add: ascii_def)
  have l: "\<not> max_chars < length (ascii ''doc'')" by (simp add: ascii_def max_chars_def)
  have f0: "fetch_readme_of world_readme_empty (full_name repo_a) =
     (Inr (Some []), [Get_request (readme_url (ascii ''a'') (ascii ''x'')) [] True])"
    by (simp add: na world_readme_empty_def example_fetch_a e200)
  have f1: "fetch_readme_of world_all_good (full_name repo_a) =
       (Inr (Some (ascii ''doc'')), [Get_request (readme_url (ascii ''a'') (ascii ''x'')) [] True])"
    by (simp add: na world_all_good_def example_fetch_a e200)
  have s1: "summarize_with_gemini world_all_good (full_name repo_a) (ascii ''doc'') =
       (Inr (ascii ''S1''), [Generate_request (gemini_prompt (ascii ''a/x'') (ascii ''doc''))])"
    by (simp add: na world_all_good_def example_summarize_a strip_S1)
  from empty_readme_is_skip [OF f0, of 1]
  have a: "candidate_body world_readme_empty (1, repo_a) =
       (Inr (), [Get_request (readme_url (ascii ''a'') (ascii ''x'')) [] True])"
    by blast
  from empty_readme_is_skip [OF f1, of 1] d l
  have b: "prompts (snd (candidate_body world_all_good (1, repo_a))) =
       [gemini_prompt (ascii ''a/x'') (ascii ''doc'')]"
    by (simp add: na)
  from empty_readme_is_skip [OF f1, of 1] d s1
  have c: "posted (snd (candidate_body world_all_good (1, repo_a))) =
       [\<lparr>content = discord_content (digest_message 1 repo_a (ascii ''S1'')),
         username = discord_username\<rparr>]"
    by blast
  from f0 a f1 d s1 b c show ?thesis by blast
qed

theorem delivery_attempts_bounded_witness:
  "length (posted (snd (pipeline world_all_good 5 TOP_N))) \<le> TOP_N
   \<and> length (posted (snd (pipeline world_all_good 5 TOP_N)))
       \<le> length (filter (has_documentation world_all_good) (candidates world_all_good 5))
   \<and> length (posted (snd (pipeline world_all_good 5 TOP_N))) = 2
   \<and> TOP_N = 2
   \<and> candidates world_all_good 5 = [repo_a, repo_b]"
proof -
  have "length (posted (snd (main world_all_good))) = 2"
    unfolding main_all_good by simp
  then have "length (posted (snd (pipeline world_all_good 5 TOP_N))) = 2"
    by (simp add: main_def)
  moreover have "candidates world_all_good 5 = [repo_a, repo_b]"
    by (simp add: world_all_good_def example_candidates e200)
  ultimately show ?thesis
    using delivery_attempts_bounded [of world_all_good 5 TOP_N]
    by (simp add: TOP_N_def)
qed

text \<open>
  Claim C7. A search answered with status 300 and a body that lists a candidate does not
  end the run: \<open>raise_for_status\<close> raises only for 400 to 599, so \<open>github_request\<close>
  falls through to \<open>resp.json()\<close>, and the candidate is fetched, summarised and
  delivered.
\<close>

theorem search_non_success_not_aborted:
  "requests_get world_search_300 search_url (search_params query 5) False
     = items_response 300 [repo_b]
   \<and> fst (main world_search_300) = Inr ()
   \<and> map content (posted (snd (main world_search_300)))
       = [digest_message 1 repo_b (ascii ''S2'')]"
  unfolding main_search_300
  by (simp add: world_search_300_def example_get)


lemma fetch_error_is_skip_example:
  "py_split 47 (full_name repo_a) = [ascii ''a'', ascii ''x'']
   \<and> requests_get world_readme_missing (readme_url (ascii ''a'') (ascii ''x'')) [] True
       = Response \<lparr>status_code = 404, body_text = ascii ''Not Found'', body_json = None\<rparr>
   \<and> is_error_status 404
   \<and> fetch_readme world_readme_missing (ascii ''a'') (ascii ''x'') =
       (Inr None, [Get_request (readme_url (ascii ''a'') (ascii ''x'')) [] True])
   \<and> candidate_body world_readme_missing (1, repo_a) =
       (Inr (), [Get_request (readme_url (ascii ''a'') (ascii ''x'')) [] True])
   \<and> for_each_candidate world_readme_missing [(1, repo_a), (2, repo_b)] =
       (Inr (),
        [Get_request (readme_url (ascii ''a'') (ascii ''x'')) [] True,
         Get_request (readme_url (ascii ''b'') (ascii ''y'')) [] True,
         Generate_request (gemini_prompt (ascii ''b/y'') (ascii ''doc'')),
         Post_request \<lparr>content = digest_message 2 repo_b (ascii ''S2''),
                        username = discord_username\<rparr>])"
proof -
  let ?resp = "\<lparr>status_code = 404, body_text = ascii ''Not Found'', body_json = None\<rparr>"
  have 1: "py_split 47 (full_name repo_a) = [ascii ''a'', ascii ''x'']"
    by (simp add: repo_a_def split_a)
  have 2: "requests_get world_readme_missing (readme_url (ascii ''a'') (ascii ''x'')) [] True
       = Response ?resp"
    by (simp add: world_readme_missing_def example_get text_response_def search_url_def
          readme_url_def readme_path_def ascii_def)
  have 3: "is_error_status (status_code ?resp)" by (simp add: e404)
  have rest: "for_each_candidate world_readme_missing [(2, repo_b)] =
       (Inr (),
        [Get_request (readme_url (ascii ''b'') (ascii ''y'')) [] True,
         Generate_request (gemini_prompt (ascii ''b/y'') (ascii ''doc'')),
         Post_request \<lparr>content = digest_message 2 repo_b (ascii ''S2''),
                        username = discord_username\<rparr>])"
    by (simp add: world_readme_missing_def example_body_b content_b)
  from fetch_error_is_skip [OF 1 2 3, of 1 "[(2, repo_b)]"] 1 2 rest show ?thesis
    by (simp add: e404)
qed

end
